theory Spec2Isabelle
  imports Complex_Main
begin

section \<open>Data model\<close>

text \<open>
  The repository holds two variants of the class \<open>AdvancedAutoLogin\<close>: the batch-style
  one of \<open>autologin.js\<close> and the wizard-style one of \<open>autolofi.js\<close>. Both are embedded
  here. The methods of \<open>autologin.js\<close> keep their names; a method of \<open>autolofi.js\<close> whose
  name is also used in \<open>autologin.js\<close> carries the prefix \<open>lofi_\<close>.

  A configuration is the object \<open>JSON.parse\<close> yields for \<open>config.json\<close>. A property that
  may be missing (\<open>undefined\<close>) is an option.
\<close>

record settings =
  enableNotifications :: bool
  autoRetry :: bool
  checkConnection :: bool
  logToFile :: bool

record config =
  cfg_username :: "string option"
  cfg_password :: "string option"
  cfg_settings :: "settings option"

text \<open>The object \<open>loginData\<close> that is posted to the portal.\<close>

record login_data =
  ld_username :: "string option"
  ld_password :: "string option"

text \<open>
  Instants are milliseconds since the epoch. The session file holds what \<open>saveSession\<close>
  writes: the fields of \<open>sessionData\<close> and \<open>lastLogin\<close>.
\<close>

record session_data =
  username :: "string option"
  loginTime :: int
  attempt :: nat

record stored_session = session_data +
  lastLogin :: int

text \<open>
  A file on disk is missing, holds text that \<open>JSON.parse\<close> rejects, or holds the text of
  a value (represented by that value: \<open>JSON.parse (JSON.stringify v) = v\<close> for the
  objects of strings and integers written here).
\<close>

datatype 'a json_file = NoFile | Unparsable | Parsed 'a

text \<open>
  What the network answers to one request: a final HTTP status with its status text, or
  no response at all (connection refused, timeout, ...) with the error's message.
\<close>

datatype response = Status nat string | NetFailure string

text \<open>The errors that are thrown, each standing for its \<open>error.message\<close>.\<close>

datatype js_error =
    RequestFailedWithStatus nat
  | NetworkError string
  | HttpError nat string
  | CredentialsNotFound
  | ConfigFileCreated
  | SetupCancelled
  | SyntaxError
  | WriteError
  | TypeError

datatype message = LoginSuccessful | AllLoginAttemptsFailed js_error

record login_outcome =
  success :: bool
  message :: message
  out_attempt :: nat
  timestamp :: int

datatype status_report = NeverLoggedIn | LastLogin int int

text \<open>The lines that are printed or logged (the bracketed time prefix is left out).\<close>

datatype line =
    TryingToLogin nat nat
  | LoginAttemptFailed nat js_error
  | WaitingBeforeRetry nat
  | FailedToSaveSession js_error
  | ConfigTemplateCreated
  | ServiceAlreadyRunning
  | StartingService
  | ConfigLoaded
  | StatusLine status_report
  | StartingLoginProcess
  | NoInternetConnection
  | ResultLine message
  | NotifySuccess
  | NotifyFailure
  | ConnectionLost
  | ServiceRunning nat
  | FailedToStartService js_error
  | ServiceStopped
  | RestartingService
  | LofiLoginAttempt bool
  | LofiLoginSuccessful nat
  | LofiAttemptFailed nat js_error
  | LofiRetryingIn nat
  | LofiAllAttemptsFailed
  | LofiNoConfiguration
  | LofiConfigurationSaved
  | LofiConfigurationCancelled
  | LofiFailedToSaveConfig js_error
  | LofiAlreadyRunning
  | LofiStarting
  | LofiStartedSuccessfully
  | LofiAutoLoginEvery nat
  | LofiServiceStarted
  | LofiFailedToStart js_error
  | LofiNotRunning
  | LofiStoppedSuccessfully
  | LofiServiceStopped

text \<open>Everything the program does to the outside world, in the order it does it.\<close>

datatype event =
    Post login_data
  | Get
  | Sleep nat
  | Console line
  | AppendLog line
  | WriteSession stored_session
  | WriteConfig config

datatype timer_kind = LoginTick | ConnectionTick

text \<open>
  The environment answers the requests (by the number of requests of that kind issued
  before), says whether files can be written, and holds what the user types into the
  setup wizard of \<open>autolofi.js\<close>.
\<close>

record env =
  post_reply :: "nat \<Rightarrow> response"
  get_reply :: "nat \<Rightarrow> response"
  disk_writable :: bool
  wizard_username :: string
  wizard_password :: string
  wizard_confirm :: string

text \<open>
  The state: the fields of the object (\<open>isRunning\<close>, \<open>config\<close>, \<open>retryCount\<close> and the two
  interval handles), the interval timers that are active in the runtime, the two JSON
  files, the clock, the request counters and the trace of events.
\<close>

record service =
  isRunning :: bool
  config :: "config option"
  retryCount :: nat
  loginInterval :: "nat option"
  connectionInterval :: "nat option"
  timers :: "(nat \<times> timer_kind) list"
  next_handle :: nat
  session_file :: "stored_session json_file"
  config_file :: "config json_file"
  clock :: int
  posts :: nat
  gets :: nat
  trace :: "event list"

section \<open>The runtime: timers, clock, axios\<close>

definition maxRetries :: nat where
  "maxRetries = 3"

definition retryDelay :: nat where
  "retryDelay = 5000"

definition checkInterval :: nat where
  "checkInterval = 15 * 60 * 1000"

definition connectionCheckInterval :: nat where
  "connectionCheckInterval = 5 * 60 * 1000"

definition emit :: "event \<Rightarrow> service \<Rightarrow> service" where
  "emit ev s = s\<lparr>trace := trace s @ [ev]\<rparr>"

definition console :: "line \<Rightarrow> service \<Rightarrow> service" where
  "console l s = emit (Console l) s"

definition delay :: "nat \<Rightarrow> service \<Rightarrow> service" where
  "delay ms s = emit (Sleep ms) (s\<lparr>clock := clock s + int ms\<rparr>)"

definition setInterval :: "timer_kind \<Rightarrow> service \<Rightarrow> nat \<times> service" where
  "setInterval k s =
     (next_handle s,
      s\<lparr>timers := timers s @ [(next_handle s, k)], next_handle := Suc (next_handle s)\<rparr>)"

definition clearInterval :: "nat \<Rightarrow> service \<Rightarrow> service" where
  "clearInterval h s = s\<lparr>timers := filter (\<lambda>t. fst t \<noteq> h) (timers s)\<rparr>"

text \<open>
  axios resolves with the response when \<open>validateStatus\<close> accepts its status and rejects
  otherwise; without the option it accepts the statuses from 200 to 299.
\<close>

definition default_validateStatus :: "nat \<Rightarrow> bool" where
  "default_validateStatus st = (200 \<le> st \<and> st < 300)"

definition axios_settle :: "(nat \<Rightarrow> bool) \<Rightarrow> response \<Rightarrow> js_error + nat \<times> string" where
  "axios_settle validateStatus r =
     (case r of
        Status st txt \<Rightarrow>
          if validateStatus st then Inr (st, txt) else Inl (RequestFailedWithStatus st)
      | NetFailure m \<Rightarrow> Inl (NetworkError m))"

definition axios_get :: "env \<Rightarrow> service \<Rightarrow> (js_error + nat \<times> string) \<times> service" where
  "axios_get e s =
     (axios_settle default_validateStatus (get_reply e (gets s)),
      emit Get (s\<lparr>gets := Suc (gets s)\<rparr>))"

definition axios_post ::
  "env \<Rightarrow> (nat \<Rightarrow> bool) \<Rightarrow> login_data \<Rightarrow> service \<Rightarrow> (js_error + nat \<times> string) \<times> service" where
  "axios_post e validateStatus d s =
     (axios_settle validateStatus (post_reply e (posts s)),
      emit (Post d) (s\<lparr>posts := Suc (posts s)\<rparr>))"

section \<open>autologin.js\<close>

text \<open>\<open>!x\<close> for a property that is a string when it is there.\<close>

definition falsy :: "string option \<Rightarrow> bool" where
  "falsy x = (case x of None \<Rightarrow> True | Some v \<Rightarrow> v = [])"

definition template :: config where
  "template =
     \<lparr>cfg_username = Some ''your_username_here'',
      cfg_password = Some ''your_password_here'',
      cfg_settings = Some \<lparr>enableNotifications = True, autoRetry = True,
                            checkConnection = True, logToFile = True\<rparr>\<rparr>"

definition createConfigTemplate :: "env \<Rightarrow> service \<Rightarrow> (js_error + unit) \<times> service" where
  "createConfigTemplate e s =
     (let s1 = emit (WriteConfig template) s in
      if disk_writable e
      then (Inr (), console ConfigTemplateCreated (s1\<lparr>config_file := Parsed template\<rparr>))
      else (Inl WriteError, s1))"

definition loadConfig :: "env \<Rightarrow> service \<Rightarrow> (js_error + config) \<times> service" where
  "loadConfig e s =
     (case config_file s of
        Parsed c \<Rightarrow>
          if falsy (cfg_username c) \<or> falsy (cfg_password c)
          then (Inl CredentialsNotFound, s)
          else (Inr c, s)
      | Unparsable \<Rightarrow> (Inl SyntaxError, s)
      | NoFile \<Rightarrow>
          (case createConfigTemplate e s of
             (Inl err, s1) \<Rightarrow> (Inl err, s1)
           | (Inr u, s1) \<Rightarrow> (Inl ConfigFileCreated, s1)))"

definition saveSession :: "env \<Rightarrow> session_data \<Rightarrow> service \<Rightarrow> service" where
  "saveSession e sessionData s =
     (let stored = \<lparr>username = username sessionData, loginTime = loginTime sessionData,
                     attempt = attempt sessionData, lastLogin = clock s\<rparr>;
          s1 = emit (WriteSession stored) s
      in if disk_writable e
         then s1\<lparr>session_file := Parsed stored\<rparr>
         else console (FailedToSaveSession WriteError) s1)"

definition loadSession :: "service \<Rightarrow> stored_session option" where
  "loadSession s =
     (case session_file s of
        Parsed v \<Rightarrow> Some v
      | Unparsable \<Rightarrow> None
      | NoFile \<Rightarrow> None)"

definition checkInternetConnection :: "env \<Rightarrow> service \<Rightarrow> bool \<times> service" where
  "checkInternetConnection e s =
     (case axios_get e s of
        (Inr (st, txt), s1) \<Rightarrow> (st = 200, s1)
      | (Inl err, s1) \<Rightarrow> (False, s1))"

text \<open>The option \<open>validateStatus\<close> of the login request.\<close>

definition login_validateStatus :: "nat \<Rightarrow> bool" where
  "login_validateStatus st = (200 \<le> st \<and> st < 500)"

text \<open>
  The body of the \<open>try\<close> block up to the test of the status: the error that reaches the
  \<open>catch\<close> block, or nothing when the status is 200.
\<close>

definition try_login :: "js_error + nat \<times> string \<Rightarrow> js_error option" where
  "try_login r =
     (case r of
        Inl err \<Rightarrow> Some err
      | Inr (st, txt) \<Rightarrow> if st = 200 then None else Some (HttpError st txt))"

text \<open>
  The \<open>for\<close> loop of \<open>loginWithRetry\<close>, entered with the value of \<open>attempt\<close>. The result is
  \<open>None\<close> when the loop ends without a \<open>return\<close> (the function then returns \<open>undefined\<close>).
\<close>

function loginWithRetry_from ::
  "env \<Rightarrow> login_data \<Rightarrow> nat \<Rightarrow> service \<Rightarrow> login_outcome option \<times> service" where
  "loginWithRetry_from e loginData n s =
     (if n \<le> maxRetries then
        (let s1 = console (TryingToLogin n maxRetries) s;
             (r, s2) = axios_post e login_validateStatus loginData s1
         in case try_login r of
              None \<Rightarrow>
                (let sessionData = \<lparr>username = ld_username loginData,
                                      loginTime = clock s2, attempt = n\<rparr>;
                     s3 = saveSession e sessionData s2;
                     s4 = s3\<lparr>retryCount := 0\<rparr>
                 in (Some \<lparr>success = True, message = LoginSuccessful,
                            out_attempt = n, timestamp = clock s4\<rparr>, s4))
            | Some err \<Rightarrow>
                (let s3 = console (LoginAttemptFailed n err) s2
                 in if n < maxRetries
                    then loginWithRetry_from e loginData (Suc n)
                           (delay retryDelay (console (WaitingBeforeRetry (retryDelay div 1000)) s3))
                    else (Some \<lparr>success = False, message = AllLoginAttemptsFailed err,
                                 out_attempt = n, timestamp = clock s3\<rparr>, s3)))
      else (None, s))"
  by pat_completeness auto
termination
  by (relation "measure (\<lambda>(e, d, n, s). Suc maxRetries - n)") auto

definition loginWithRetry :: "env \<Rightarrow> login_data \<Rightarrow> service \<Rightarrow> login_outcome option \<times> service" where
  "loginWithRetry e loginData s = loginWithRetry_from e loginData 1 s"

text \<open>\<open>this.config?.settings?.logToFile\<close> and \<open>this.config.settings?.f\<close>.\<close>

definition logToFile_on :: "config option \<Rightarrow> bool" where
  "logToFile_on c =
     (case c of
        None \<Rightarrow> False
      | Some c' \<Rightarrow> (case cfg_settings c' of None \<Rightarrow> False | Some st \<Rightarrow> logToFile st))"

definition setting :: "(settings \<Rightarrow> bool) \<Rightarrow> config \<Rightarrow> bool" where
  "setting f c = (case cfg_settings c of None \<Rightarrow> False | Some st \<Rightarrow> f st)"

text \<open>
  The method \<open>logToFile\<close> (the name is taken by the setting): the call of \<open>appendFile\<close>,
  which is not awaited.
\<close>

definition logToFile_m :: "line \<Rightarrow> service \<Rightarrow> service" where
  "logToFile_m l s = emit (AppendLog l) s"

definition log :: "line \<Rightarrow> service \<Rightarrow> service" where
  "log l s =
     (let s1 = console l s
      in if logToFile_on (config s1) then logToFile_m l s1 else s1)"

definition getLoginStatus :: "service \<Rightarrow> status_report" where
  "getLoginStatus s =
     (case loadSession s of
        None \<Rightarrow> NeverLoggedIn
      | Some session \<Rightarrow>
          LastLogin (lastLogin session) ((clock s - lastLogin session) div (1000 * 60)))"

definition sendNotification :: "login_outcome \<Rightarrow> service \<Rightarrow> service" where
  "sendNotification result s =
     (if success result then log NotifySuccess s else log NotifyFailure s)"

text \<open>
  \<open>executeLogin\<close> returns no value on any path: the first component of the result is what
  the caller receives, the error thrown or the value returned (\<open>None\<close> for \<open>undefined\<close>). It
  throws when \<open>this.config\<close> is not set or when \<open>loginWithRetry\<close> returns \<open>undefined\<close>.
\<close>

definition executeLogin ::
  "env \<Rightarrow> service \<Rightarrow> (js_error + login_outcome option) \<times> service" where
  "executeLogin e s =
     (let s1 = log StartingLoginProcess s
      in case config s1 of
           None \<Rightarrow> (Inl TypeError, s1)
         | Some c \<Rightarrow>
             (let (isConnected, s2) =
                    (if setting checkConnection c then checkInternetConnection e s1
                     else (True, s1))
              in if \<not> isConnected then (Inr None, log NoInternetConnection s2)
                 else
                   (let loginData = \<lparr>ld_username = cfg_username c,
                                       ld_password = cfg_password c\<rparr>;
                        (result, s3) = loginWithRetry e loginData s2
                    in case result of
                         None \<Rightarrow> (Inl TypeError, s3)
                       | Some res \<Rightarrow>
                           (let s4 = log (ResultLine (message res)) s3;
                                s5 = (if setting enableNotifications c
                                      then sendNotification res s4 else s4)
                            in (Inr None, s5)))))"

text \<open>The \<open>catch\<close> block of \<open>start\<close>, and \<open>start\<close>.\<close>

definition start_failed :: "js_error \<Rightarrow> service \<Rightarrow> service" where
  "start_failed err s = (log (FailedToStartService err) s)\<lparr>isRunning := False\<rparr>"

definition start :: "env \<Rightarrow> service \<Rightarrow> service" where
  "start e s =
     (if isRunning s then log ServiceAlreadyRunning s
      else
        (let s1 = log StartingService (s\<lparr>isRunning := True\<rparr>)
         in case loadConfig e s1 of
              (Inl err, s2) \<Rightarrow> start_failed err s2
            | (Inr c, s2) \<Rightarrow>
                (let s3 = log ConfigLoaded (s2\<lparr>config := Some c\<rparr>);
                     s4 = log (StatusLine (getLoginStatus s3)) s3
                 in case executeLogin e s4 of
                      (Inl err, s5) \<Rightarrow> start_failed err s5
                    | (Inr u, s5) \<Rightarrow>
                        (let (h, s6) = setInterval LoginTick s5;
                             s7 = s6\<lparr>loginInterval := Some h\<rparr>;
                             s8 = (if setting checkConnection c
                                   then (let (h', s') = setInterval ConnectionTick s7
                                         in s'\<lparr>connectionInterval := Some h'\<rparr>)
                                   else s7)
                         in log (ServiceRunning (checkInterval div 60000)) s8))))"

definition stop :: "service \<Rightarrow> service" where
  "stop s =
     (let s1 = (case loginInterval s of Some h \<Rightarrow> clearInterval h s | None \<Rightarrow> s);
          s2 = (case connectionInterval s1 of Some h \<Rightarrow> clearInterval h s1 | None \<Rightarrow> s1)
      in log ServiceStopped (s2\<lparr>isRunning := False\<rparr>))"

definition restart :: "env \<Rightarrow> service \<Rightarrow> service" where
  "restart e s = start e (delay 2000 (stop (log RestartingService s)))"

text \<open>
  One firing of an interval timer: the two callbacks that \<open>start\<close> installs. A rejection
  that nobody handles reaches the handler that \<open>setupGracefulShutdown\<close> installs, which
  calls \<open>stop\<close> before the process exits.
\<close>

definition fire :: "env \<Rightarrow> timer_kind \<Rightarrow> service \<Rightarrow> service" where
  "fire e k s =
     (case k of
        LoginTick \<Rightarrow>
          (case executeLogin e s of
             (Inl err, s1) \<Rightarrow> stop s1
           | (Inr u, s1) \<Rightarrow> s1)
      | ConnectionTick \<Rightarrow>
          (let (isConnected, s1) = checkInternetConnection e s
           in if \<not> isConnected
              then (case executeLogin e (log ConnectionLost s1) of
                      (Inl err, s2) \<Rightarrow> stop s2
                    | (Inr u, s2) \<Rightarrow> s2)
              else s1))"

text \<open>
  The object as the constructor leaves it, in a world given by the two files and the
  clock.
\<close>

definition new_service :: "stored_session json_file \<Rightarrow> config json_file \<Rightarrow> int \<Rightarrow> service" where
  "new_service sf cf t =
     \<lparr>isRunning = False, config = None, retryCount = 0, loginInterval = None,
      connectionInterval = None, timers = [], next_handle = 0, session_file = sf,
      config_file = cf, clock = t, posts = 0, gets = 0, trace = []\<rparr>"

text \<open>
  The states the menu of \<open>autologin.js\<close> can reach: it awaits each action before it shows
  the menu again, so the actions and the timer firings are the steps. A login on demand
  that throws ends in \<open>stop\<close>, like a firing that throws. Between two steps time passes
  and the user may edit the configuration file.
\<close>

inductive reachable :: "env \<Rightarrow> service \<Rightarrow> bool" for e :: env where
  r_new: "reachable e (new_service sf cf t)"
| r_start: "reachable e s \<Longrightarrow> reachable e (start e s)"
| r_stop: "reachable e s \<Longrightarrow> reachable e (stop s)"
| r_restart: "reachable e s \<Longrightarrow> reachable e (restart e s)"
| r_login: "reachable e s \<Longrightarrow> executeLogin e s = (Inr u, s') \<Longrightarrow> reachable e s'"
| r_login_throws: "reachable e s \<Longrightarrow> executeLogin e s = (Inl err, s') \<Longrightarrow> reachable e (stop s')"
| r_fire: "reachable e s \<Longrightarrow> (h, k) \<in> set (timers s) \<Longrightarrow> reachable e (fire e k s)"
| r_time: "reachable e s \<Longrightarrow> reachable e (s\<lparr>clock := clock s + int d\<rparr>)"
| r_edit: "reachable e s \<Longrightarrow> reachable e (s\<lparr>config_file := cf\<rparr>)"

section \<open>autolofi.js\<close>

text \<open>
  The class of \<open>autolofi.js\<close> has the fields \<open>isRunning\<close> and \<open>loginInterval\<close> of the state
  above and none of the others; it never reads or writes the session file. Of its
  console output the lines of the login and of the service are recorded, the banners,
  menus and prompts are not. Its timer is armed by \<open>startService\<close> and cleared by
  \<open>stopService\<close>; its firings are not followed.
\<close>

definition lofi_checkInternetConnection :: "env \<Rightarrow> service \<Rightarrow> bool \<times> service" where
  "lofi_checkInternetConnection e s =
     (case axios_get e s of
        (Inr r, s1) \<Rightarrow> (True, s1)
      | (Inl err, s1) \<Rightarrow> (False, s1))"

definition lofi_logToFile :: "line \<Rightarrow> service \<Rightarrow> service" where
  "lofi_logToFile l s = emit (AppendLog l) s"

definition saveConfig :: "env \<Rightarrow> config \<Rightarrow> service \<Rightarrow> bool \<times> service" where
  "saveConfig e c s =
     (let s1 = emit (WriteConfig c) s
      in if disk_writable e
         then (True, s1\<lparr>config_file := Parsed c\<rparr>)
         else (False, console (LofiFailedToSaveConfig WriteError) s1))"

definition setupWizard :: "env \<Rightarrow> service \<Rightarrow> config option \<times> service" where
  "setupWizard e s =
     (let c = \<lparr>cfg_username = Some (wizard_username e),
               cfg_password = Some (wizard_password e),
               cfg_settings = Some \<lparr>enableNotifications = True, autoRetry = True,
                                     checkConnection = True, logToFile = True\<rparr>\<rparr>
      in if wizard_confirm e = ''y'' \<or> wizard_confirm e = ''Y''
         then (let (saved, s1) = saveConfig e c s
               in (Some c, console LofiConfigurationSaved s1))
         else (None, console LofiConfigurationCancelled s))"

definition lofi_loadConfig :: "env \<Rightarrow> service \<Rightarrow> (js_error + config) \<times> service" where
  "lofi_loadConfig e s =
     (case config_file s of
        Parsed c \<Rightarrow> (Inr c, s)
      | Unparsable \<Rightarrow> (Inl SyntaxError, s)
      | NoFile \<Rightarrow>
          (case setupWizard e (console LofiNoConfiguration s) of
             (Some c, s1) \<Rightarrow> (Inr c, s1)
           | (None, s1) \<Rightarrow> (Inl SetupCancelled, s1)))"

text \<open>The objects \<open>{success: true, attempt}\<close> and \<open>{success: false}\<close>.\<close>

record lofi_outcome =
  lofi_success :: bool
  lofi_attempt :: "nat option"

definition lofi_say :: "bool \<Rightarrow> line \<Rightarrow> service \<Rightarrow> service" where
  "lofi_say isTest l s =
     (let s1 = console l s in if \<not> isTest then lofi_logToFile l s1 else s1)"

text \<open>
  The \<open>for\<close> loop of \<open>executeLogin\<close>, entered with the value of \<open>attempt\<close>. Its condition
  reads \<open>config.settings.autoRetry\<close>, which throws when there are no settings. The request
  has no \<open>validateStatus\<close>: a status from 201 to 299 neither returns nor throws.
\<close>

function lofi_executeLogin_from ::
  "env \<Rightarrow> config \<Rightarrow> bool \<Rightarrow> nat \<Rightarrow> service \<Rightarrow> (js_error + lofi_outcome) \<times> service" where
  "lofi_executeLogin_from e c isTest n s =
     (case cfg_settings c of
        None \<Rightarrow> (Inl TypeError, s)
      | Some st \<Rightarrow>
          if n \<le> (if autoRetry st then maxRetries else 1) then
            (let loginData = \<lparr>ld_username = cfg_username c, ld_password = cfg_password c\<rparr>;
                 (r, s1) = axios_post e default_validateStatus loginData s
             in case r of
                  Inr (code, txt) \<Rightarrow>
                    if code = 200
                    then (Inr \<lparr>lofi_success = True, lofi_attempt = Some n\<rparr>,
                          lofi_say isTest (LofiLoginSuccessful n) s1)
                    else lofi_executeLogin_from e c isTest (Suc n) s1
                | Inl err \<Rightarrow>
                    (let s2 = lofi_say isTest (LofiAttemptFailed n err) s1;
                         s3 = (if n < maxRetries \<and> autoRetry st
                               then delay retryDelay (console (LofiRetryingIn (retryDelay div 1000)) s2)
                               else s2)
                     in lofi_executeLogin_from e c isTest (Suc n) s3))
          else (Inr \<lparr>lofi_success = False, lofi_attempt = None\<rparr>,
                lofi_say isTest LofiAllAttemptsFailed s))"
  by pat_completeness auto
termination
  by (relation "measure (\<lambda>(e, c, isTest, n, s). Suc maxRetries - n)")
     (auto simp: maxRetries_def split: if_splits)

definition lofi_executeLogin ::
  "env \<Rightarrow> config \<Rightarrow> bool \<Rightarrow> service \<Rightarrow> (js_error + lofi_outcome) \<times> service" where
  "lofi_executeLogin e c isTest s =
     (let s1 = (if \<not> isTest then lofi_logToFile (LofiLoginAttempt isTest) s else s);
          s2 = console (LofiLoginAttempt isTest) s1
      in lofi_executeLogin_from e c isTest 1 s2)"

definition startService :: "env \<Rightarrow> service \<Rightarrow> service" where
  "startService e s =
     (if isRunning s then console LofiAlreadyRunning s
      else
        (case lofi_loadConfig e s of
           (Inl err, s1) \<Rightarrow> console (LofiFailedToStart err) s1
         | (Inr c, s1) \<Rightarrow>
             (let s2 = (console LofiStarting s1)\<lparr>isRunning := True\<rparr>;
                  (h, s3) = setInterval LoginTick s2;
                  s4 = s3\<lparr>loginInterval := Some h\<rparr>
              in case lofi_executeLogin e c False s4 of
                   (Inl err, s5) \<Rightarrow> console (LofiFailedToStart err) s5
                 | (Inr res, s5) \<Rightarrow>
                     lofi_logToFile LofiServiceStarted
                       (console (LofiAutoLoginEvery (checkInterval div 60000))
                          (console LofiStartedSuccessfully s5)))))"

definition stopService :: "service \<Rightarrow> service" where
  "stopService s =
     (if \<not> isRunning s then console LofiNotRunning s
      else
        (let s1 = (case loginInterval s of Some h \<Rightarrow> clearInterval h s | None \<Rightarrow> s)
         in lofi_logToFile LofiServiceStopped
              (console LofiStoppedSuccessfully (s1\<lparr>isRunning := False\<rparr>))))"

section \<open>Notions used to state the properties\<close>

text \<open>The events a call has added to the trace, and the requests and pauses among them.\<close>

definition new_events :: "service \<Rightarrow> service \<Rightarrow> event list" where
  "new_events s s' = drop (length (trace s)) (trace s')"

fun is_post :: "event \<Rightarrow> bool" where
  "is_post (Post d) = True"
| "is_post ev = False"

fun is_post_or_sleep :: "event \<Rightarrow> bool" where
  "is_post_or_sleep (Post d) = True"
| "is_post_or_sleep (Sleep ms) = True"
| "is_post_or_sleep ev = False"

fun is_write_session :: "event \<Rightarrow> bool" where
  "is_write_session (WriteSession r) = True"
| "is_write_session ev = False"

text \<open>A reply with HTTP status 200.\<close>

fun is_200 :: "response \<Rightarrow> bool" where
  "is_200 (Status st txt) = (st = 200)"
| "is_200 (NetFailure m) = False"

text \<open>A reply with a status from 200 to 299.\<close>

fun is_2xx :: "response \<Rightarrow> bool" where
  "is_2xx (Status st txt) = (200 \<le> st \<and> st < 300)"
| "is_2xx (NetFailure m) = False"

text \<open>What one attempt of \<open>loginWithRetry\<close> makes of a reply: the error it catches, if any.\<close>

definition attempt_error :: "response \<Rightarrow> js_error option" where
  "attempt_error r = try_login (axios_settle login_validateStatus r)"

text \<open>The number of active timers of a kind.\<close>

definition active :: "timer_kind \<Rightarrow> service \<Rightarrow> nat" where
  "active k s = length (filter (\<lambda>t. snd t = k) (timers s))"

text \<open>
  The state after the request of attempt \<open>n\<close>, after the \<open>catch\<close> block has reported its
  failure, and after the pause before the next attempt.
\<close>

definition attempted :: "login_data \<Rightarrow> nat \<Rightarrow> service \<Rightarrow> service" where
  "attempted d n s =
     emit (Post d) ((console (TryingToLogin n maxRetries) s)\<lparr>posts := Suc (posts s)\<rparr>)"

definition failed_attempt :: "login_data \<Rightarrow> nat \<Rightarrow> js_error \<Rightarrow> service \<Rightarrow> service" where
  "failed_attempt d n err s = console (LoginAttemptFailed n err) (attempted d n s)"

definition waited :: "service \<Rightarrow> service" where
  "waited s = delay retryDelay (console (WaitingBeforeRetry (retryDelay div 1000)) s)"

text \<open>The fields of the scheduler: the flag, the two handles and the active timers.\<close>

definition scheduler ::
  "service \<Rightarrow> bool \<times> nat option \<times> nat option \<times> (nat \<times> timer_kind) list" where
  "scheduler s = (isRunning s, loginInterval s, connectionInterval s, timers s)"

text \<open>A transport on which every request fails or succeeds with the same reply.\<close>

definition constant_env :: "response \<Rightarrow> response \<Rightarrow> bool \<Rightarrow> env" where
  "constant_env p g w =
     \<lparr>post_reply = (\<lambda>k. p), get_reply = (\<lambda>k. g), disk_writable = w,
      wizard_username = ''user'', wizard_password = ''secret'', wizard_confirm = ''y''\<rparr>"

text \<open>A transport that answers 503 to the first \<open>n\<close> posts and 200 to the later ones.\<close>

definition flaky_env :: "nat \<Rightarrow> bool \<Rightarrow> env" where
  "flaky_env n w =
     \<lparr>post_reply = (\<lambda>k. if k < n then Status 503 ''Service Unavailable'' else Status 200 ''OK''),
      get_reply = (\<lambda>k. Status 200 ''OK''), disk_writable = w,
      wizard_username = ''user'', wizard_password = ''secret'', wizard_confirm = ''y''\<rparr>"

text \<open>The events of one call of \<open>log\<close>, given the value of \<open>this.config\<close>.\<close>

definition log_events :: "config option \<Rightarrow> line \<Rightarrow> event list" where
  "log_events c l = Console l # (if logToFile_on c then [AppendLog l] else [])"

text \<open>A configuration with both credentials and the given settings.\<close>

definition sample_config :: "bool \<Rightarrow> bool \<Rightarrow> config" where
  "sample_config retry probe =
     \<lparr>cfg_username = Some ''user'', cfg_password = Some ''secret'',
      cfg_settings = Some \<lparr>enableNotifications = True, autoRetry = retry,
                            checkConnection = probe, logToFile = True\<rparr>\<rparr>"

text \<open>
  What \<open>executeLogin\<close> of \<open>autologin.js\<close> does with the outcome of \<open>loginWithRetry\<close>: it logs
  the message and, when notifications are on, the notification.
\<close>

definition reported :: "config \<Rightarrow> login_outcome \<Rightarrow> service \<Rightarrow> service" where
  "reported c res s =
     (let s4 = log (ResultLine (message res)) s
      in if setting enableNotifications c then sendNotification res s4 else s4)"

text \<open>A fresh object whose \<open>config\<close> field has been set.\<close>

definition configured :: "config \<Rightarrow> service" where
  "configured c = (new_service NoFile (Parsed c) 0)\<lparr>config := Some c\<rparr>"

text \<open>
  The state of \<open>executeLogin\<close> of \<open>autolofi.js\<close> after the request of an attempt, and after
  an attempt \<open>n\<close> that did not get status 200 (reply \<open>r\<close>): a status from 201 to 299 leaves
  no trace; an error is reported and, when attempts remain and \<open>autoRetry\<close> is on,
  followed by the pause.
\<close>

definition lofi_posted :: "config \<Rightarrow> service \<Rightarrow> service" where
  "lofi_posted c s =
     emit (Post \<lparr>ld_username = cfg_username c, ld_password = cfg_password c\<rparr>)
       (s\<lparr>posts := Suc (posts s)\<rparr>)"

definition lofi_after_failure ::
  "config \<Rightarrow> settings \<Rightarrow> bool \<Rightarrow> nat \<Rightarrow> response \<Rightarrow> service \<Rightarrow> service" where
  "lofi_after_failure c st isTest n r s =
     (case axios_settle default_validateStatus r of
        Inr res \<Rightarrow> lofi_posted c s
      | Inl err \<Rightarrow>
          (let s2 = lofi_say isTest (LofiAttemptFailed n err) (lofi_posted c s)
           in if n < maxRetries \<and> autoRetry st
              then delay retryDelay (console (LofiRetryingIn (retryDelay div 1000)) s2)
              else s2))"

text \<open>A configuration file without a username.\<close>

definition no_username_config :: config where
  "no_username_config =
     \<lparr>cfg_username = None, cfg_password = Some ''secret'',
      cfg_settings = Some \<lparr>enableNotifications = True, autoRetry = True,
                            checkConnection = True, logToFile = True\<rparr>\<rparr>"

text \<open>
  The scheduler is in order: a stopped service has no active timer; a running one has
  its login timer, under the handle in \<open>loginInterval\<close>, and at most the connectivity timer
  beside it, under the handle in \<open>connectionInterval\<close>.
\<close>

definition scheduler_ok :: "service \<Rightarrow> bool" where
  "scheduler_ok s =
     (if isRunning s
      then (case loginInterval s of
              None \<Rightarrow> False
            | Some h \<Rightarrow>
                timers s = [(h, LoginTick)] \<or>
                (case connectionInterval s of
                   None \<Rightarrow> False
                 | Some h' \<Rightarrow> timers s = [(h, LoginTick), (h', ConnectionTick)]))
      else timers s = [])"

section \<open>What the primitive steps change\<close>

lemma emit_fields [simp]:
  "isRunning (emit ev s) = isRunning s"
  "config (emit ev s) = config s"
  "retryCount (emit ev s) = retryCount s"
  "loginInterval (emit ev s) = loginInterval s"
  "connectionInterval (emit ev s) = connectionInterval s"
  "timers (emit ev s) = timers s"
  "next_handle (emit ev s) = next_handle s"
  "session_file (emit ev s) = session_file s"
  "config_file (emit ev s) = config_file s"
  "clock (emit ev s) = clock s"
  "posts (emit ev s) = posts s"
  "gets (emit ev s) = gets s"
  "trace (emit ev s) = trace s @ [ev]"
  by (simp_all add: emit_def)

lemma console_fields [simp]:
  "isRunning (console l s) = isRunning s"
  "config (console l s) = config s"
  "retryCount (console l s) = retryCount s"
  "loginInterval (console l s) = loginInterval s"
  "connectionInterval (console l s) = connectionInterval s"
  "timers (console l s) = timers s"
  "next_handle (console l s) = next_handle s"
  "session_file (console l s) = session_file s"
  "config_file (console l s) = config_file s"
  "clock (console l s) = clock s"
  "posts (console l s) = posts s"
  "gets (console l s) = gets s"
  "trace (console l s) = trace s @ [Console l]"
  by (simp_all add: console_def emit_def)

lemma delay_fields [simp]:
  "isRunning (delay ms s) = isRunning s"
  "config (delay ms s) = config s"
  "retryCount (delay ms s) = retryCount s"
  "loginInterval (delay ms s) = loginInterval s"
  "connectionInterval (delay ms s) = connectionInterval s"
  "timers (delay ms s) = timers s"
  "next_handle (delay ms s) = next_handle s"
  "session_file (delay ms s) = session_file s"
  "config_file (delay ms s) = config_file s"
  "clock (delay ms s) = clock s + int ms"
  "posts (delay ms s) = posts s"
  "gets (delay ms s) = gets s"
  "trace (delay ms s) = trace s @ [Sleep ms]"
  by (simp_all add: delay_def emit_def)

lemma clearInterval_fields [simp]:
  "isRunning (clearInterval h s) = isRunning s"
  "config (clearInterval h s) = config s"
  "retryCount (clearInterval h s) = retryCount s"
  "loginInterval (clearInterval h s) = loginInterval s"
  "connectionInterval (clearInterval h s) = connectionInterval s"
  "timers (clearInterval h s) = filter (\<lambda>t. fst t \<noteq> h) (timers s)"
  "next_handle (clearInterval h s) = next_handle s"
  "session_file (clearInterval h s) = session_file s"
  "config_file (clearInterval h s) = config_file s"
  "clock (clearInterval h s) = clock s"
  "posts (clearInterval h s) = posts s"
  "gets (clearInterval h s) = gets s"
  "trace (clearInterval h s) = trace s"
  by (simp_all add: clearInterval_def)

lemma lofi_logToFile_fields [simp]:
  "isRunning (lofi_logToFile l s) = isRunning s"
  "config (lofi_logToFile l s) = config s"
  "retryCount (lofi_logToFile l s) = retryCount s"
  "loginInterval (lofi_logToFile l s) = loginInterval s"
  "connectionInterval (lofi_logToFile l s) = connectionInterval s"
  "timers (lofi_logToFile l s) = timers s"
  "next_handle (lofi_logToFile l s) = next_handle s"
  "session_file (lofi_logToFile l s) = session_file s"
  "config_file (lofi_logToFile l s) = config_file s"
  "clock (lofi_logToFile l s) = clock s"
  "posts (lofi_logToFile l s) = posts s"
  "gets (lofi_logToFile l s) = gets s"
  "trace (lofi_logToFile l s) = trace s @ [AppendLog l]"
  by (simp_all add: lofi_logToFile_def emit_def)

lemma setInterval_fields [simp]:
  "fst (setInterval k s) = next_handle s"
  "isRunning (snd (setInterval k s)) = isRunning s"
  "config (snd (setInterval k s)) = config s"
  "retryCount (snd (setInterval k s)) = retryCount s"
  "loginInterval (snd (setInterval k s)) = loginInterval s"
  "connectionInterval (snd (setInterval k s)) = connectionInterval s"
  "timers (snd (setInterval k s)) = timers s @ [(next_handle s, k)]"
  "next_handle (snd (setInterval k s)) = Suc (next_handle s)"
  "session_file (snd (setInterval k s)) = session_file s"
  "config_file (snd (setInterval k s)) = config_file s"
  "clock (snd (setInterval k s)) = clock s"
  "posts (snd (setInterval k s)) = posts s"
  "gets (snd (setInterval k s)) = gets s"
  "trace (snd (setInterval k s)) = trace s"
  by (simp_all add: setInterval_def)

section \<open>The retry loop of autologin.js, step by step\<close>

declare loginWithRetry_from.simps [simp del]

declare lofi_executeLogin_from.simps [simp del]

lemma attempt_error_None: "attempt_error r = None \<longleftrightarrow> is_200 r"
  by (cases r) (auto simp: attempt_error_def try_login_def axios_settle_def login_validateStatus_def)

lemma attempt_error_Some: "\<not> is_200 r \<Longrightarrow> \<exists>err. attempt_error r = Some err"
  using attempt_error_None [of r] by (cases "attempt_error r") auto

lemma loop_retry:
  assumes "n < maxRetries" "attempt_error (post_reply e (posts s)) = Some err"
  shows "loginWithRetry_from e d n s =
         loginWithRetry_from e d (Suc n) (waited (failed_attempt d n err s))"
  using assms
  apply (subst loginWithRetry_from.simps)
  apply (simp add: Let_def axios_post_def attempt_error_def console_def emit_def
      waited_def failed_attempt_def attempted_def)
  done

lemma loop_last:
  assumes "n = maxRetries" "attempt_error (post_reply e (posts s)) = Some err"
  shows "loginWithRetry_from e d n s =
         (Some \<lparr>success = False, message = AllLoginAttemptsFailed err, out_attempt = n,
                timestamp = clock s\<rparr>, failed_attempt d n err s)"
  using assms
  apply (subst loginWithRetry_from.simps)
  apply (simp add: Let_def axios_post_def attempt_error_def console_def emit_def
      waited_def failed_attempt_def attempted_def)
  done

lemma loop_success:
  assumes "n \<le> maxRetries" "attempt_error (post_reply e (posts s)) = None"
  shows "loginWithRetry_from e d n s =
         (Some \<lparr>success = True, message = LoginSuccessful, out_attempt = n, timestamp = clock s\<rparr>,
          (saveSession e \<lparr>username = ld_username d, loginTime = clock s, attempt = n\<rparr>
             (attempted d n s))\<lparr>retryCount := 0\<rparr>)"
  using assms
  apply (subst loginWithRetry_from.simps)
  apply (simp add: Let_def axios_post_def attempt_error_def console_def emit_def saveSession_def
      waited_def failed_attempt_def attempted_def)
  done

lemma posts_waited_failed [simp]: "posts (waited (failed_attempt d n err s)) = Suc (posts s)"
  by (simp add: waited_def failed_attempt_def attempted_def delay_def console_def emit_def)

lemma three_failures:
  assumes "attempt_error (post_reply e (posts s)) = Some e1"
    and "attempt_error (post_reply e (Suc (posts s))) = Some e2"
    and "attempt_error (post_reply e (Suc (Suc (posts s)))) = Some e3"
  shows "loginWithRetry e d s =
         (Some \<lparr>success = False, message = AllLoginAttemptsFailed e3, out_attempt = 3,
                timestamp = clock s + 10000\<rparr>,
          failed_attempt d 3 e3 (waited (failed_attempt d 2 e2 (waited (failed_attempt d 1 e1 s)))))"
proof -
  let ?s1 = "waited (failed_attempt d 1 e1 s)"
  let ?s2 = "waited (failed_attempt d 2 e2 ?s1)"
  have a: "loginWithRetry_from e d 1 s = loginWithRetry_from e d 2 ?s1"
    using loop_retry [of 1 e s e1 d] assms(1) by (simp add: maxRetries_def numeral_2_eq_2)
  have b: "loginWithRetry_from e d 2 ?s1 = loginWithRetry_from e d 3 ?s2"
    using loop_retry [of 2 e ?s1 e2 d] assms(2) by (simp add: maxRetries_def numeral_3_eq_3 numeral_2_eq_2)
  have c: "loginWithRetry_from e d 3 ?s2 =
      (Some \<lparr>success = False, message = AllLoginAttemptsFailed e3, out_attempt = 3,
                timestamp = clock ?s2\<rparr>, failed_attempt d 3 e3 ?s2)"
    using loop_last [of 3 e ?s2 e3 d] assms(3) by (simp add: maxRetries_def)
  have t: "clock ?s2 = clock s + 10000"
    by (simp add: waited_def failed_attempt_def attempted_def delay_def console_def emit_def retryDelay_def)
  show ?thesis unfolding loginWithRetry_def a b c t ..
qed





lemma new_service_fields [simp]:
  "isRunning (new_service sf cf t) = False"
  "config (new_service sf cf t) = None"
  "loginInterval (new_service sf cf t) = None"
  "connectionInterval (new_service sf cf t) = None"
  "timers (new_service sf cf t) = []"
  "session_file (new_service sf cf t) = sf"
  "config_file (new_service sf cf t) = cf"
  "clock (new_service sf cf t) = t"
  "posts (new_service sf cf t) = 0"
  "gets (new_service sf cf t) = 0"
  "trace (new_service sf cf t) = []"
  by (simp_all add: new_service_def)

lemma loop_exit: "maxRetries < n \<Longrightarrow> loginWithRetry_from e d n s = (None, s)"
  by (subst loginWithRetry_from.simps) simp

lemma saveSession_fields [simp]:
  "isRunning (saveSession e r s) = isRunning s"
  "config (saveSession e r s) = config s"
  "retryCount (saveSession e r s) = retryCount s"
  "loginInterval (saveSession e r s) = loginInterval s"
  "connectionInterval (saveSession e r s) = connectionInterval s"
  "timers (saveSession e r s) = timers s"
  "next_handle (saveSession e r s) = next_handle s"
  "config_file (saveSession e r s) = config_file s"
  "clock (saveSession e r s) = clock s"
  "posts (saveSession e r s) = posts s"
  "gets (saveSession e r s) = gets s"
  by (simp_all add: saveSession_def Let_def console_def emit_def)

lemma saveSession_file:
  "session_file (saveSession e r s) =
     (if disk_writable e
      then Parsed \<lparr>username = username r, loginTime = loginTime r, attempt = attempt r,
                    lastLogin = clock s\<rparr>
      else session_file s)"
  by (simp add: saveSession_def Let_def console_def emit_def)


lemma attempted_fields [simp]:
  "isRunning (attempted d n s) = isRunning s"
  "config (attempted d n s) = config s"
  "retryCount (attempted d n s) = retryCount s"
  "loginInterval (attempted d n s) = loginInterval s"
  "connectionInterval (attempted d n s) = connectionInterval s"
  "timers (attempted d n s) = timers s"
  "next_handle (attempted d n s) = next_handle s"
  "session_file (attempted d n s) = session_file s"
  "config_file (attempted d n s) = config_file s"
  "clock (attempted d n s) = clock s"
  "posts (attempted d n s) = Suc (posts s)"
  "gets (attempted d n s) = gets s"
  "trace (attempted d n s) = trace s @ [Console (TryingToLogin n maxRetries), Post d]"
  by (simp_all add: attempted_def console_def emit_def)

lemma failed_attempt_fields [simp]:
  "isRunning (failed_attempt d n err s) = isRunning s"
  "config (failed_attempt d n err s) = config s"
  "retryCount (failed_attempt d n err s) = retryCount s"
  "loginInterval (failed_attempt d n err s) = loginInterval s"
  "connectionInterval (failed_attempt d n err s) = connectionInterval s"
  "timers (failed_attempt d n err s) = timers s"
  "next_handle (failed_attempt d n err s) = next_handle s"
  "session_file (failed_attempt d n err s) = session_file s"
  "config_file (failed_attempt d n err s) = config_file s"
  "clock (failed_attempt d n err s) = clock s"
  "posts (failed_attempt d n err s) = Suc (posts s)"
  "gets (failed_attempt d n err s) = gets s"
  "trace (failed_attempt d n err s) =
     trace s @ [Console (TryingToLogin n maxRetries), Post d, Console (LoginAttemptFailed n err)]"
  by (simp_all add: failed_attempt_def console_def emit_def)

lemma waited_fields [simp]:
  "isRunning (waited s) = isRunning s"
  "config (waited s) = config s"
  "retryCount (waited s) = retryCount s"
  "loginInterval (waited s) = loginInterval s"
  "connectionInterval (waited s) = connectionInterval s"
  "timers (waited s) = timers s"
  "next_handle (waited s) = next_handle s"
  "session_file (waited s) = session_file s"
  "config_file (waited s) = config_file s"
  "clock (waited s) = clock s + 5000"
  "posts (waited s) = posts s"
  "gets (waited s) = gets s"
  "trace (waited s) = trace s @ [Console (WaitingBeforeRetry 5), Sleep 5000]"
  by (simp_all add: waited_def delay_def console_def emit_def retryDelay_def)

text \<open>The four ways through the loop.\<close>

lemma loginWithRetry_first:
  assumes "is_200 (post_reply e (posts s))"
  shows "loginWithRetry e d s =
         (Some \<lparr>success = True, message = LoginSuccessful, out_attempt = 1, timestamp = clock s\<rparr>,
          (saveSession e \<lparr>username = ld_username d, loginTime = clock s, attempt = 1\<rparr>
             (attempted d 1 s))\<lparr>retryCount := 0\<rparr>)"
  using loop_success [of 1 e s d] assms
  by (simp add: loginWithRetry_def attempt_error_None maxRetries_def)

lemma loginWithRetry_second:
  assumes "attempt_error (post_reply e (posts s)) = Some e1"
    and "is_200 (post_reply e (Suc (posts s)))"
  shows "loginWithRetry e d s =
         (Some \<lparr>success = True, message = LoginSuccessful, out_attempt = 2,
                timestamp = clock s + 5000\<rparr>,
          (saveSession e \<lparr>username = ld_username d, loginTime = clock s + 5000, attempt = 2\<rparr>
             (attempted d 2 (waited (failed_attempt d 1 e1 s))))\<lparr>retryCount := 0\<rparr>)"
proof -
  let ?s1 = "waited (failed_attempt d 1 e1 s)"
  have a: "loginWithRetry_from e d 1 s = loginWithRetry_from e d 2 ?s1"
    using loop_retry [of 1 e s e1 d] assms(1) by (simp add: maxRetries_def numeral_2_eq_2)
  show ?thesis
    unfolding loginWithRetry_def a
    by (subst loop_success) (simp_all add: attempt_error_None assms(2) maxRetries_def)
qed

lemma loginWithRetry_third:
  assumes "attempt_error (post_reply e (posts s)) = Some e1"
    and "attempt_error (post_reply e (Suc (posts s))) = Some e2"
    and "is_200 (post_reply e (Suc (Suc (posts s))))"
  shows "loginWithRetry e d s =
         (Some \<lparr>success = True, message = LoginSuccessful, out_attempt = 3,
                timestamp = clock s + 10000\<rparr>,
          (saveSession e \<lparr>username = ld_username d, loginTime = clock s + 10000, attempt = 3\<rparr>
             (attempted d 3 (waited (failed_attempt d 2 e2 (waited (failed_attempt d 1 e1 s))))))
            \<lparr>retryCount := 0\<rparr>)"
proof -
  let ?s1 = "waited (failed_attempt d 1 e1 s)"
  let ?s2 = "waited (failed_attempt d 2 e2 ?s1)"
  have a: "loginWithRetry_from e d 1 s = loginWithRetry_from e d 2 ?s1"
    using loop_retry [of 1 e s e1 d] assms(1) by (simp add: maxRetries_def numeral_2_eq_2)
  have b: "loginWithRetry_from e d 2 ?s1 = loginWithRetry_from e d 3 ?s2"
    using loop_retry [of 2 e ?s1 e2 d] assms(2)
    by (simp add: maxRetries_def numeral_3_eq_3 numeral_2_eq_2)
  show ?thesis
    unfolding loginWithRetry_def a b
    by (subst loop_success) (simp_all add: attempt_error_None assms(3) maxRetries_def ac_simps)
qed

lemma log_fields [simp]:
  "isRunning (log l s) = isRunning s"
  "config (log l s) = config s"
  "retryCount (log l s) = retryCount s"
  "loginInterval (log l s) = loginInterval s"
  "connectionInterval (log l s) = connectionInterval s"
  "timers (log l s) = timers s"
  "next_handle (log l s) = next_handle s"
  "session_file (log l s) = session_file s"
  "config_file (log l s) = config_file s"
  "clock (log l s) = clock s"
  "posts (log l s) = posts s"
  "gets (log l s) = gets s"
  "trace (log l s) = trace s @ log_events (config s) l"
  by (simp_all add: log_def Let_def logToFile_m_def console_def emit_def log_events_def)

lemma sendNotification_fields [simp]:
  "isRunning (sendNotification r s) = isRunning s"
  "config (sendNotification r s) = config s"
  "loginInterval (sendNotification r s) = loginInterval s"
  "connectionInterval (sendNotification r s) = connectionInterval s"
  "timers (sendNotification r s) = timers s"
  "next_handle (sendNotification r s) = next_handle s"
  "session_file (sendNotification r s) = session_file s"
  "config_file (sendNotification r s) = config_file s"
  "clock (sendNotification r s) = clock s"
  "posts (sendNotification r s) = posts s"
  "gets (sendNotification r s) = gets s"
  by (simp_all add: sendNotification_def)

text \<open>Every call of \<open>loginWithRetry\<close> takes one of four ways.\<close>

lemma loginWithRetry_cases:
  obtains
    (first) "is_200 (post_reply e (posts s))"
  | (second) e1 where "attempt_error (post_reply e (posts s)) = Some e1"
      "is_200 (post_reply e (Suc (posts s)))"
  | (third) e1 e2 where "attempt_error (post_reply e (posts s)) = Some e1"
      "attempt_error (post_reply e (Suc (posts s))) = Some e2"
      "is_200 (post_reply e (Suc (Suc (posts s))))"
  | (none) e1 e2 e3 where "attempt_error (post_reply e (posts s)) = Some e1"
      "attempt_error (post_reply e (Suc (posts s))) = Some e2"
      "attempt_error (post_reply e (Suc (Suc (posts s)))) = Some e3"
proof (cases "is_200 (post_reply e (posts s))")
  case True
  then show ?thesis by (rule first)
next
  case n1: False
  then obtain e1 where e1: "attempt_error (post_reply e (posts s)) = Some e1"
    using attempt_error_Some by blast
  show ?thesis
  proof (cases "is_200 (post_reply e (Suc (posts s)))")
    case True
    with e1 show ?thesis by (rule second)
  next
    case n2: False
    then obtain e2 where e2: "attempt_error (post_reply e (Suc (posts s))) = Some e2"
      using attempt_error_Some by blast
    show ?thesis
    proof (cases "is_200 (post_reply e (Suc (Suc (posts s))))")
      case True
      with e1 e2 show ?thesis by (rule third)
    next
      case False
      then obtain e3 where e3: "attempt_error (post_reply e (Suc (Suc (posts s)))) = Some e3"
        using attempt_error_Some by blast
      from e1 e2 e3 show ?thesis by (rule none)
    qed
  qed
qed

lemma loginWithRetry_returns: "\<exists>out. fst (loginWithRetry e d s) = Some out"
  by (cases e s rule: loginWithRetry_cases)
     (simp_all add: loginWithRetry_first loginWithRetry_second loginWithRetry_third three_failures)

lemma loginWithRetry_frame:
  "isRunning (snd (loginWithRetry e d s)) = isRunning s"
  "config (snd (loginWithRetry e d s)) = config s"
  "loginInterval (snd (loginWithRetry e d s)) = loginInterval s"
  "connectionInterval (snd (loginWithRetry e d s)) = connectionInterval s"
  "timers (snd (loginWithRetry e d s)) = timers s"
  "next_handle (snd (loginWithRetry e d s)) = next_handle s"
  "config_file (snd (loginWithRetry e d s)) = config_file s"
  "gets (snd (loginWithRetry e d s)) = gets s"
  by (cases e s rule: loginWithRetry_cases;
      simp add: loginWithRetry_first loginWithRetry_second loginWithRetry_third three_failures)+

section \<open>The connectivity probes\<close>

lemma axios_get_fields [simp]:
  "isRunning (snd (axios_get e s)) = isRunning s"
  "config (snd (axios_get e s)) = config s"
  "retryCount (snd (axios_get e s)) = retryCount s"
  "loginInterval (snd (axios_get e s)) = loginInterval s"
  "connectionInterval (snd (axios_get e s)) = connectionInterval s"
  "timers (snd (axios_get e s)) = timers s"
  "next_handle (snd (axios_get e s)) = next_handle s"
  "session_file (snd (axios_get e s)) = session_file s"
  "config_file (snd (axios_get e s)) = config_file s"
  "clock (snd (axios_get e s)) = clock s"
  "posts (snd (axios_get e s)) = posts s"
  "gets (snd (axios_get e s)) = Suc (gets s)"
  "trace (snd (axios_get e s)) = trace s @ [Get]"
  by (simp_all add: axios_get_def emit_def)

lemma checkInternetConnection_snd: "snd (checkInternetConnection e s) = snd (axios_get e s)"
  by (simp add: checkInternetConnection_def split: prod.splits sum.splits)

lemma lofi_checkInternetConnection_snd: "snd (lofi_checkInternetConnection e s) = snd (axios_get e s)"
  by (simp add: lofi_checkInternetConnection_def split: prod.splits sum.splits)

lemma checkInternetConnection_fst: "fst (checkInternetConnection e s) = is_200 (get_reply e (gets s))"
  by (cases "get_reply e (gets s)")
     (auto simp: checkInternetConnection_def axios_get_def axios_settle_def default_validateStatus_def)

lemma lofi_checkInternetConnection_fst:
  "fst (lofi_checkInternetConnection e s) = is_2xx (get_reply e (gets s))"
  by (cases "get_reply e (gets s)")
     (auto simp: lofi_checkInternetConnection_def axios_get_def axios_settle_def default_validateStatus_def)

section \<open>One call of executeLogin (autologin.js)\<close>

lemma log_events_filter [simp]:
  "filter is_post (log_events c l) = []"
  "filter is_post_or_sleep (log_events c l) = []"
  "filter is_write_session (log_events c l) = []"
  by (simp_all add: log_events_def)

lemma checkInternetConnection_frame [simp]:
  "isRunning (snd (checkInternetConnection e s)) = isRunning s"
  "config (snd (checkInternetConnection e s)) = config s"
  "loginInterval (snd (checkInternetConnection e s)) = loginInterval s"
  "connectionInterval (snd (checkInternetConnection e s)) = connectionInterval s"
  "timers (snd (checkInternetConnection e s)) = timers s"
  "next_handle (snd (checkInternetConnection e s)) = next_handle s"
  "session_file (snd (checkInternetConnection e s)) = session_file s"
  "config_file (snd (checkInternetConnection e s)) = config_file s"
  "clock (snd (checkInternetConnection e s)) = clock s"
  "posts (snd (checkInternetConnection e s)) = posts s"
  "gets (snd (checkInternetConnection e s)) = Suc (gets s)"
  "trace (snd (checkInternetConnection e s)) = trace s @ [Get]"
  by (simp_all add: checkInternetConnection_snd)

text \<open>\<open>executeLogin\<close> with the connection check on and the probe failing.\<close>

lemma executeLogin_disconnected:
  assumes "config s = Some c" and "setting checkConnection c"
    and "\<not> fst (checkInternetConnection e s)"
  shows "executeLogin e s =
         (Inr None, log NoInternetConnection
                      (snd (checkInternetConnection e (log StartingLoginProcess s))))"
proof -
  have "\<not> fst (checkInternetConnection e (log StartingLoginProcess s))"
    using assms(3) by (simp add: checkInternetConnection_fst)
  then show ?thesis
    using assms(1,2) by (simp add: executeLogin_def Let_def case_prod_beta)
qed

text \<open>\<open>executeLogin\<close> when the request loop is entered.\<close>

lemma executeLogin_connected:
  assumes "config s = Some c"
    and "setting checkConnection c \<longrightarrow> fst (checkInternetConnection e s)"
    and "entered = (if setting checkConnection c
               then snd (checkInternetConnection e (log StartingLoginProcess s))
               else log StartingLoginProcess s)"
    and "loginWithRetry e \<lparr>ld_username = cfg_username c, ld_password = cfg_password c\<rparr> entered
           = (Some res, left)"
  shows "executeLogin e s = (Inr None, reported c res left)"
proof -
  have "setting checkConnection c \<Longrightarrow> fst (checkInternetConnection e (log StartingLoginProcess s))"
    using assms(2) by (simp add: checkInternetConnection_fst)
  then show ?thesis
    using assms(1,3,4)
    by (auto simp: executeLogin_def Let_def case_prod_beta reported_def)
qed

lemma configured_fields [simp]:
  "isRunning (configured c) = False"
  "config (configured c) = Some c"
  "loginInterval (configured c) = None"
  "connectionInterval (configured c) = None"
  "timers (configured c) = []"
  "session_file (configured c) = NoFile"
  "config_file (configured c) = Parsed c"
  "clock (configured c) = 0"
  "posts (configured c) = 0"
  "gets (configured c) = 0"
  "trace (configured c) = []"
  by (simp_all add: configured_def)

lemma sample_config_settings [simp]:
  "setting checkConnection (sample_config retry probe) = probe"
  "setting autoRetry (sample_config retry probe) = retry"
  "setting enableNotifications (sample_config retry probe) = True"
  "logToFile_on (Some (sample_config retry probe)) = True"
  "cfg_username (sample_config retry probe) = Some ''user''"
  "cfg_password (sample_config retry probe) = Some ''secret''"
  by (simp_all add: sample_config_def setting_def logToFile_on_def)

section \<open>Exhausted attempts\<close>

text \<open>
  C4: when each of the three attempts of \<open>loginWithRetry\<close> fails (no reply has status 200;
  the method does not read \<open>autoRetry\<close>), it posts exactly three times, pauses 5000 ms
  after the first and after the second attempt and not after the third, and returns
  \<open>success = false\<close>, \<open>attempt = 3\<close> and the message built from the error of the third
  attempt.
\<close>

theorem loginWithRetry_all_fail:
  assumes "\<not> is_200 (post_reply e (posts s))"
    and "\<not> is_200 (post_reply e (Suc (posts s)))"
    and "\<not> is_200 (post_reply e (Suc (Suc (posts s))))"
  shows "\<exists>err s'. loginWithRetry e d s =
            (Some \<lparr>success = False, message = AllLoginAttemptsFailed err, out_attempt = 3,
                   timestamp = clock s'\<rparr>, s')
         \<and> attempt_error (post_reply e (Suc (Suc (posts s)))) = Some err
         \<and> trace s' = trace s @ new_events s s'
         \<and> filter is_post_or_sleep (new_events s s') = [Post d, Sleep 5000, Post d, Sleep 5000, Post d]
         \<and> length (filter is_post (new_events s s')) = 3
         \<and> clock s' = clock s + 10000"
proof -
  obtain e1 where e1: "attempt_error (post_reply e (posts s)) = Some e1"
    using attempt_error_Some [OF assms(1)] ..
  obtain e2 where e2: "attempt_error (post_reply e (Suc (posts s))) = Some e2"
    using attempt_error_Some [OF assms(2)] ..
  obtain e3 where e3: "attempt_error (post_reply e (Suc (Suc (posts s)))) = Some e3"
    using attempt_error_Some [OF assms(3)] ..
  note e = e1 e2 e3
  define s' where "s' = failed_attempt d 3 e3 (waited (failed_attempt d 2 e2 (waited (failed_attempt d 1 e1 s))))"
  have tr: "trace s' = trace s @
      [Console (TryingToLogin 1 maxRetries), Post d, Console (LoginAttemptFailed 1 e1),
       Console (WaitingBeforeRetry 5), Sleep 5000,
       Console (TryingToLogin 2 maxRetries), Post d, Console (LoginAttemptFailed 2 e2),
       Console (WaitingBeforeRetry 5), Sleep 5000,
       Console (TryingToLogin 3 maxRetries), Post d, Console (LoginAttemptFailed 3 e3)]"
    unfolding s'_def
    by (simp add: waited_def failed_attempt_def attempted_def delay_def console_def emit_def retryDelay_def)
  have cl: "clock s' = clock s + 10000"
    unfolding s'_def
    by (simp add: waited_def failed_attempt_def attempted_def delay_def console_def emit_def retryDelay_def)
  have r: "loginWithRetry e d s =
            (Some \<lparr>success = False, message = AllLoginAttemptsFailed e3, out_attempt = 3,
                   timestamp = clock s'\<rparr>, s')"
    unfolding cl using three_failures [OF e] by (simp add: s'_def)
  have n: "new_events s s' = [Console (TryingToLogin 1 maxRetries), Post d, Console (LoginAttemptFailed 1 e1),
       Console (WaitingBeforeRetry 5), Sleep 5000,
       Console (TryingToLogin 2 maxRetries), Post d, Console (LoginAttemptFailed 2 e2),
       Console (WaitingBeforeRetry 5), Sleep 5000,
       Console (TryingToLogin 3 maxRetries), Post d, Console (LoginAttemptFailed 3 e3)]"
    by (simp add: new_events_def tr)
  have "loginWithRetry e d s =
            (Some \<lparr>success = False, message = AllLoginAttemptsFailed e3, out_attempt = 3,
                   timestamp = clock s'\<rparr>, s')
         \<and> attempt_error (post_reply e (Suc (Suc (posts s)))) = Some e3
         \<and> trace s' = trace s @ new_events s s'
         \<and> filter is_post_or_sleep (new_events s s') = [Post d, Sleep 5000, Post d, Sleep 5000, Post d]
         \<and> length (filter is_post (new_events s s')) = 3
         \<and> clock s' = clock s + 10000"
    using r e(3) cl tr by (simp add: n)
  then show ?thesis by blast
qed

theorem loginWithRetry_all_fail_witness:
  "\<exists>err s'. loginWithRetry (constant_env (NetFailure ''timeout of 15000ms exceeded'') (Status 200 ''OK'') True)
       \<lparr>ld_username = Some ''user'', ld_password = Some ''secret''\<rparr> (new_service NoFile NoFile 0) =
            (Some \<lparr>success = False, message = AllLoginAttemptsFailed err, out_attempt = 3,
                   timestamp = clock s'\<rparr>, s')
         \<and> err = NetworkError ''timeout of 15000ms exceeded''
         \<and> filter is_post_or_sleep (trace s') =
             [Post \<lparr>ld_username = Some ''user'', ld_password = Some ''secret''\<rparr>, Sleep 5000,
              Post \<lparr>ld_username = Some ''user'', ld_password = Some ''secret''\<rparr>, Sleep 5000,
              Post \<lparr>ld_username = Some ''user'', ld_password = Some ''secret''\<rparr>]
         \<and> clock s' = 10000"
proof -
  let ?e = "constant_env (NetFailure ''timeout of 15000ms exceeded'') (Status 200 ''OK'') True"
  have h: "\<not> is_200 (post_reply ?e k)" for k
    by (simp add: constant_env_def)
  have a: "attempt_error (post_reply ?e k) = Some (NetworkError ''timeout of 15000ms exceeded'')" for k
    by (simp add: constant_env_def attempt_error_def axios_settle_def try_login_def)
  show ?thesis
    using loginWithRetry_all_fail [where e = ?e and s = "new_service NoFile NoFile 0"
        and d = "\<lparr>ld_username = Some ''user'', ld_password = Some ''secret''\<rparr>", OF h h h]
    by (auto simp: a new_events_def new_service_def)
qed

section \<open>Success on the third attempt\<close>



section \<open>A failed login leaves the session file alone\<close>

text \<open>
  C10: when \<open>loginWithRetry\<close> returns an outcome with \<open>success = false\<close>, none of its three
  attempts got status 200, \<open>saveSession\<close> was not called and the session file is what it
  was before the call. (Conversely, three replies other than 200 give such an outcome.)
\<close>

theorem loginWithRetry_failure_keeps_session:
  assumes "loginWithRetry e d s = (Some out, s')" and "\<not> success out"
  shows "session_file s' = session_file s
       \<and> filter is_write_session (new_events s s') = []
       \<and> \<not> is_200 (post_reply e (posts s))
       \<and> \<not> is_200 (post_reply e (Suc (posts s)))
       \<and> \<not> is_200 (post_reply e (Suc (Suc (posts s))))"
proof -
  have n1: "\<not> is_200 (post_reply e (posts s))"
    using assms loginWithRetry_first [of e s d] by auto
  then obtain e1 where e1: "attempt_error (post_reply e (posts s)) = Some e1"
    using attempt_error_Some by blast
  have n2: "\<not> is_200 (post_reply e (Suc (posts s)))"
    using assms loginWithRetry_second [OF e1, of d] by auto
  then obtain e2 where e2: "attempt_error (post_reply e (Suc (posts s))) = Some e2"
    using attempt_error_Some by blast
  have n3: "\<not> is_200 (post_reply e (Suc (Suc (posts s))))"
    using assms loginWithRetry_third [OF e1 e2, of d] by auto
  then obtain e3 where e3: "attempt_error (post_reply e (Suc (Suc (posts s)))) = Some e3"
    using attempt_error_Some by blast
  have s': "s' = failed_attempt d 3 e3 (waited (failed_attempt d 2 e2 (waited (failed_attempt d 1 e1 s))))"
    using three_failures [OF e1 e2 e3, of d] assms(1) by simp
  show ?thesis
    using n1 n2 n3 by (simp add: s' new_events_def)
qed

theorem loginWithRetry_failure_keeps_session_witness:
  "\<exists>out s'. loginWithRetry (flaky_env 3 True)
        \<lparr>ld_username = Some ''user'', ld_password = Some ''secret''\<rparr>
        (new_service (Parsed \<lparr>username = Some ''user'', loginTime = 5, attempt = 1, lastLogin = 7\<rparr>) NoFile 100)
        = (Some out, s')
      \<and> success out = False
      \<and> session_file s' = Parsed \<lparr>username = Some ''user'', loginTime = 5, attempt = 1, lastLogin = 7\<rparr>
      \<and> filter is_write_session (trace s') = []"
proof -
  let ?e = "flaky_env 3 True"
  let ?d = "\<lparr>ld_username = Some ''user'', ld_password = Some ''secret''\<rparr>"
  let ?f = "Parsed \<lparr>username = Some ''user'', loginTime = 5, attempt = 1, lastLogin = 7\<rparr>"
  let ?s = "new_service ?f NoFile 100"
  let ?err = "RequestFailedWithStatus 503"
  define out where
    "out = \<lparr>success = False, message = AllLoginAttemptsFailed ?err, out_attempt = 3,
            timestamp = clock ?s + 10000\<rparr>"
  define s' where
    "s' = failed_attempt ?d 3 ?err (waited (failed_attempt ?d 2 ?err (waited (failed_attempt ?d 1 ?err ?s))))"
  have a: "attempt_error (post_reply ?e k) = Some ?err" if "k < 3" for k
    using that
    by (simp add: flaky_env_def attempt_error_def axios_settle_def try_login_def login_validateStatus_def)
  have r: "loginWithRetry ?e ?d ?s = (Some out, s')"
    unfolding out_def s'_def by (rule three_failures) (simp_all add: a)
  have f: "\<not> success out"
    by (simp add: out_def)
  have "session_file s' = session_file ?s \<and> filter is_write_session (new_events ?s s') = []"
    using loginWithRetry_failure_keeps_session [OF r f] by simp
  then have "loginWithRetry ?e ?d ?s = (Some out, s') \<and> success out = False
      \<and> session_file s' = ?f \<and> filter is_write_session (trace s') = []"
    using r f by (simp add: new_events_def)
  then show ?thesis by blast
qed

section \<open>The status report\<close>



section \<open>Saving and loading the session\<close>



lemma saveSession_unwritable:
  "\<not> disk_writable e \<Longrightarrow> loadSession (saveSession e r s) = loadSession s"
  by (simp add: loadSession_def saveSession_file)

section \<open>What the probes report\<close>

text \<open>
  C5, as the code has it: neither probe raises (both are total and return a boolean).
  \<open>checkInternetConnection\<close> of \<open>autologin.js\<close> returns true exactly when the reply has
  status 200; the one of \<open>autolofi.js\<close> returns true exactly when the reply has a status
  from 200 to 299. Every other reply, and every network error or timeout, gives false.
\<close>

theorem checkInternetConnection_result:
  "fst (checkInternetConnection e s) = is_200 (get_reply e (gets s))
   \<and> fst (lofi_checkInternetConnection e s) = is_2xx (get_reply e (gets s))"
  by (simp add: checkInternetConnection_fst lofi_checkInternetConnection_fst)

text \<open>
  C5 as stated fails for \<open>autologin.js\<close>: on a reply with status 204, which is in the 2xx
  range, its probe returns false.
\<close>

theorem checkInternetConnection_204:
  "\<not> (fst (checkInternetConnection (constant_env (Status 200 ''OK'') (Status 204 ''No Content'') True)
            (new_service NoFile NoFile 0))
      \<longleftrightarrow> is_2xx (get_reply (constant_env (Status 200 ''OK'') (Status 204 ''No Content'') True)
            (gets (new_service NoFile NoFile 0))))"
  by (simp add: checkInternetConnection_fst constant_env_def)

section \<open>The login loop of autolofi.js\<close>

lemma lofi_say_fields [simp]:
  "isRunning (lofi_say isTest l s) = isRunning s"
  "loginInterval (lofi_say isTest l s) = loginInterval s"
  "timers (lofi_say isTest l s) = timers s"
  "session_file (lofi_say isTest l s) = session_file s"
  "config_file (lofi_say isTest l s) = config_file s"
  "clock (lofi_say isTest l s) = clock s"
  "posts (lofi_say isTest l s) = posts s"
  "trace (lofi_say isTest l s) = trace s @ Console l # (if isTest then [] else [AppendLog l])"
  by (simp_all add: lofi_say_def Let_def lofi_logToFile_def console_def emit_def)

lemma lofi_posted_fields [simp]:
  "isRunning (lofi_posted c s) = isRunning s"
  "loginInterval (lofi_posted c s) = loginInterval s"
  "timers (lofi_posted c s) = timers s"
  "session_file (lofi_posted c s) = session_file s"
  "config_file (lofi_posted c s) = config_file s"
  "clock (lofi_posted c s) = clock s"
  "posts (lofi_posted c s) = Suc (posts s)"
  "trace (lofi_posted c s) =
     trace s @ [Post \<lparr>ld_username = cfg_username c, ld_password = cfg_password c\<rparr>]"
  by (simp_all add: lofi_posted_def emit_def)

lemma lofi_after_failure_fields [simp]:
  "isRunning (lofi_after_failure c st isTest n r s) = isRunning s"
  "loginInterval (lofi_after_failure c st isTest n r s) = loginInterval s"
  "timers (lofi_after_failure c st isTest n r s) = timers s"
  "session_file (lofi_after_failure c st isTest n r s) = session_file s"
  "config_file (lofi_after_failure c st isTest n r s) = config_file s"
  "posts (lofi_after_failure c st isTest n r s) = Suc (posts s)"
  by (simp_all add: lofi_after_failure_def Let_def delay_def console_def emit_def split: sum.splits)

lemma lofi_after_failure_trace:
  "\<exists>xs. trace (lofi_after_failure c st isTest n r s) = trace s @ xs
        \<and> filter is_post xs = [Post \<lparr>ld_username = cfg_username c, ld_password = cfg_password c\<rparr>]"
  by (simp add: lofi_after_failure_def Let_def split: sum.splits)

lemma lofi_loop_exit:
  assumes "cfg_settings c = Some st" and "(if autoRetry st then maxRetries else 1) < n"
  shows "lofi_executeLogin_from e c isTest n s =
         (Inr \<lparr>lofi_success = False, lofi_attempt = None\<rparr>, lofi_say isTest LofiAllAttemptsFailed s)"
  using assms by (subst lofi_executeLogin_from.simps) (simp split: if_splits)

lemma lofi_loop_success:
  assumes "cfg_settings c = Some st" and "n \<le> (if autoRetry st then maxRetries else 1)"
    and "is_200 (post_reply e (posts s))"
  shows "lofi_executeLogin_from e c isTest n s =
         (Inr \<lparr>lofi_success = True, lofi_attempt = Some n\<rparr>,
          lofi_say isTest (LofiLoginSuccessful n) (lofi_posted c s))"
  using assms
  by (subst lofi_executeLogin_from.simps, cases "post_reply e (posts s)")
     (simp_all add: axios_post_def axios_settle_def default_validateStatus_def lofi_posted_def
        split: if_splits)

lemma lofi_loop_retry:
  assumes "cfg_settings c = Some st" and "n \<le> (if autoRetry st then maxRetries else 1)"
    and "\<not> is_200 (post_reply e (posts s))"
  shows "lofi_executeLogin_from e c isTest n s =
         lofi_executeLogin_from e c isTest (Suc n)
           (lofi_after_failure c st isTest n (post_reply e (posts s)) s)"
  using assms
  by (subst lofi_executeLogin_from.simps, cases "post_reply e (posts s)")
     (auto simp: axios_post_def axios_settle_def default_validateStatus_def lofi_posted_def
        lofi_after_failure_def Let_def)

text \<open>With \<open>autoRetry\<close> off, \<open>executeLogin\<close> of \<open>autolofi.js\<close> posts exactly once.\<close>

lemma lofi_executeLogin_single_attempt:
  assumes "cfg_settings c = Some st" and "\<not> autoRetry st"
  shows "filter is_post (new_events s (snd (lofi_executeLogin e c isTest s))) =
         [Post \<lparr>ld_username = cfg_username c, ld_password = cfg_password c\<rparr>]"
proof -
  define s2 where
    "s2 = console (LofiLoginAttempt isTest)
            (if \<not> isTest then lofi_logToFile (LofiLoginAttempt isTest) s else s)"
  have t2: "trace s2 = trace s @ (if isTest then [] else [AppendLog (LofiLoginAttempt isTest)])
      @ [Console (LofiLoginAttempt isTest)]"
    by (simp add: s2_def)
  have x: "lofi_executeLogin e c isTest s = lofi_executeLogin_from e c isTest 1 s2"
    by (simp add: lofi_executeLogin_def Let_def s2_def)
  have b: "(if autoRetry st then maxRetries else 1) = 1"
    using assms(2) by simp
  show ?thesis
  proof (cases "is_200 (post_reply e (posts s2))")
    case True
    have "lofi_executeLogin_from e c isTest 1 s2 =
        (Inr \<lparr>lofi_success = True, lofi_attempt = Some 1\<rparr>,
         lofi_say isTest (LofiLoginSuccessful 1) (lofi_posted c s2))"
      by (rule lofi_loop_success [OF assms(1) _ True]) (simp add: b)
    then show ?thesis
      by (simp add: x new_events_def t2)
  next
    case False
    define s3 where "s3 = lofi_after_failure c st isTest 1 (post_reply e (posts s2)) s2"
    have "lofi_executeLogin_from e c isTest 1 s2 = lofi_executeLogin_from e c isTest (Suc 1) s3"
      unfolding s3_def by (rule lofi_loop_retry [OF assms(1) _ False]) (simp add: b)
    also have "\<dots> = (Inr \<lparr>lofi_success = False, lofi_attempt = None\<rparr>,
        lofi_say isTest LofiAllAttemptsFailed s3)"
      by (rule lofi_loop_exit [OF assms(1)]) (simp add: b)
    finally have y: "lofi_executeLogin e c isTest s =
        (Inr \<lparr>lofi_success = False, lofi_attempt = None\<rparr>, lofi_say isTest LofiAllAttemptsFailed s3)"
      using x by simp
    obtain xs where xs: "trace s3 = trace s2 @ xs"
      "filter is_post xs = [Post \<lparr>ld_username = cfg_username c, ld_password = cfg_password c\<rparr>]"
      unfolding s3_def using lofi_after_failure_trace by blast
    show ?thesis
      by (simp add: y new_events_def t2 xs)
  qed
qed

text \<open>
  On a transport that fails twice and then answers 200, \<open>executeLogin\<close> of \<open>autolofi.js\<close>
  (with \<open>autoRetry\<close> on) returns \<open>{success: true, attempt: 3}\<close> after three posts. It has no
  session store: the session file is what it was.
\<close>

lemma lofi_executeLogin_third_attempt:
  assumes "cfg_settings c = Some st" and "autoRetry st"
    and "\<not> is_200 (post_reply e (posts s))"
    and "\<not> is_200 (post_reply e (Suc (posts s)))"
    and "is_200 (post_reply e (Suc (Suc (posts s))))"
  shows "fst (lofi_executeLogin e c isTest s) = Inr \<lparr>lofi_success = True, lofi_attempt = Some 3\<rparr>
       \<and> posts (snd (lofi_executeLogin e c isTest s)) = posts s + 3
       \<and> session_file (snd (lofi_executeLogin e c isTest s)) = session_file s"
proof -
  define s0 where
    "s0 = console (LofiLoginAttempt isTest)
            (if \<not> isTest then lofi_logToFile (LofiLoginAttempt isTest) s else s)"
  have p0: "posts s0 = posts s" and f0: "session_file s0 = session_file s"
    by (simp_all add: s0_def)
  have x: "lofi_executeLogin e c isTest s = lofi_executeLogin_from e c isTest 1 s0"
    by (simp add: lofi_executeLogin_def Let_def s0_def)
  have b: "(if autoRetry st then maxRetries else 1) = 3"
    using assms(2) by (simp add: maxRetries_def)
  define s1 where "s1 = lofi_after_failure c st isTest 1 (post_reply e (posts s0)) s0"
  define s2 where "s2 = lofi_after_failure c st isTest (Suc 1) (post_reply e (posts s1)) s1"
  have p1: "posts s1 = Suc (posts s)" and f1: "session_file s1 = session_file s"
    by (simp_all add: s1_def p0 f0)
  have p2: "posts s2 = Suc (Suc (posts s))" and f2: "session_file s2 = session_file s"
    by (simp_all add: s2_def p1 f1)
  have "lofi_executeLogin_from e c isTest 1 s0 = lofi_executeLogin_from e c isTest (Suc 1) s1"
    unfolding s1_def by (rule lofi_loop_retry [OF assms(1)]) (simp_all add: b p0 assms(3))
  also have "\<dots> = lofi_executeLogin_from e c isTest (Suc (Suc 1)) s2"
    unfolding s2_def by (rule lofi_loop_retry [OF assms(1)]) (simp_all add: b p1 assms(4))
  also have "\<dots> = (Inr \<lparr>lofi_success = True, lofi_attempt = Some (Suc (Suc 1))\<rparr>,
      lofi_say isTest (LofiLoginSuccessful (Suc (Suc 1))) (lofi_posted c s2))"
    by (rule lofi_loop_success [OF assms(1)]) (simp_all add: b p2 assms(5))
  finally show ?thesis
    by (simp add: x p2 f2)
qed

section \<open>No connection\<close>

text \<open>
  C2, as the code has it: with \<open>checkConnection\<close> on and the probe reporting no connection,
  \<open>executeLogin\<close> of \<open>autologin.js\<close> logs the start line, sends the probe's GET, logs the line
  "No internet connection" and returns; it issues no POST and leaves the session file
  alone. What it returns is \<open>undefined\<close>, as on every other path: the failure is logged, no
  outcome object is returned.
\<close>

theorem executeLogin_offline:
  assumes "config s = Some c" and "setting checkConnection c"
    and "\<not> fst (checkInternetConnection e s)"
  shows "\<exists>s'. executeLogin e s = (Inr None, s')
           \<and> new_events s s' =
               log_events (Some c) StartingLoginProcess @ [Get] @ log_events (Some c) NoInternetConnection
           \<and> filter is_post (new_events s s') = []
           \<and> posts s' = posts s
           \<and> session_file s' = session_file s"
proof -
  define s' where
    "s' = log NoInternetConnection (snd (checkInternetConnection e (log StartingLoginProcess s)))"
  have r: "executeLogin e s = (Inr None, s')"
    unfolding s'_def using assms by (rule executeLogin_disconnected)
  have n: "new_events s s' =
      log_events (Some c) StartingLoginProcess @ [Get] @ log_events (Some c) NoInternetConnection"
    by (simp add: new_events_def s'_def assms(1))
  have "executeLogin e s = (Inr None, s')
           \<and> new_events s s' =
               log_events (Some c) StartingLoginProcess @ [Get] @ log_events (Some c) NoInternetConnection
           \<and> filter is_post (new_events s s') = []
           \<and> posts s' = posts s
           \<and> session_file s' = session_file s"
    using r n by (simp add: s'_def)
  then show ?thesis ..
qed

theorem executeLogin_offline_witness:
  "\<exists>s'. executeLogin (constant_env (Status 200 ''OK'') (NetFailure ''getaddrinfo ENOTFOUND'') True)
            (configured (sample_config True True)) = (Inr None, s')
        \<and> trace s' =
            [Console StartingLoginProcess, AppendLog StartingLoginProcess, Get,
             Console NoInternetConnection, AppendLog NoInternetConnection]
        \<and> posts s' = 0"
proof -
  let ?e = "constant_env (Status 200 ''OK'') (NetFailure ''getaddrinfo ENOTFOUND'') True"
  let ?s = "configured (sample_config True True)"
  have c: "config ?s = Some (sample_config True True)"
    by simp
  have p: "setting checkConnection (sample_config True True)"
    by simp
  have d: "\<not> fst (checkInternetConnection ?e ?s)"
    by (simp add: checkInternetConnection_fst constant_env_def)
  show ?thesis
    using executeLogin_offline [OF c p d]
    by (auto simp: new_events_def log_events_def)
qed

text \<open>
  C2 as stated fails: with the connection check on and the probe failing, the value
  \<open>executeLogin\<close> of \<open>autologin.js\<close> returns is \<open>undefined\<close>, not an outcome with
  \<open>success = false\<close>; and \<open>executeLogin\<close> of \<open>autolofi.js\<close>, which consults neither the setting
  nor the probe, posts to the login URL.
\<close>

theorem executeLogin_returns_no_outcome:
  "\<not> (\<exists>out. fst (executeLogin (constant_env (Status 200 ''OK'') (NetFailure ''getaddrinfo ENOTFOUND'') True)
                   (configured (sample_config True True))) = Inr (Some out)
             \<and> \<not> success out)
   \<and> \<not> fst (lofi_checkInternetConnection
               (constant_env (Status 200 ''OK'') (NetFailure ''getaddrinfo ENOTFOUND'') True)
               (configured (sample_config True True)))
   \<and> filter is_post (trace (snd (lofi_executeLogin
          (constant_env (Status 200 ''OK'') (NetFailure ''getaddrinfo ENOTFOUND'') True)
          (sample_config True True) False (configured (sample_config True True)))))
       = [Post \<lparr>ld_username = Some ''user'', ld_password = Some ''secret''\<rparr>]"
proof -
  let ?e = "constant_env (Status 200 ''OK'') (NetFailure ''getaddrinfo ENOTFOUND'') True"
  let ?c = "sample_config True True"
  let ?s = "configured ?c"
  have d: "\<not> fst (checkInternetConnection ?e ?s)"
    by (simp add: checkInternetConnection_fst constant_env_def)
  have "fst (executeLogin ?e ?s) = Inr None"
    by (subst executeLogin_disconnected [where c = ?c]) (simp_all add: d)
  then have a: "\<not> (\<exists>out. fst (executeLogin ?e ?s) = Inr (Some out) \<and> \<not> success out)"
    by simp
  have b: "\<not> fst (lofi_checkInternetConnection ?e ?s)"
    by (simp add: lofi_checkInternetConnection_fst constant_env_def)
  have st: "cfg_settings ?c = Some \<lparr>enableNotifications = True, autoRetry = True,
                            checkConnection = True, logToFile = True\<rparr>"
    by (simp add: sample_config_def)
  define s2 where
    "s2 = console (LofiLoginAttempt False) (lofi_logToFile (LofiLoginAttempt False) ?s)"
  have p: "is_200 (post_reply ?e (posts s2))"
    by (simp add: constant_env_def)
  have "lofi_executeLogin_from ?e ?c False 1 s2 =
      (Inr \<lparr>lofi_success = True, lofi_attempt = Some 1\<rparr>,
       lofi_say False (LofiLoginSuccessful 1) (lofi_posted ?c s2))"
    by (rule lofi_loop_success [OF st _ p]) (simp add: maxRetries_def)
  then have x: "lofi_executeLogin ?e ?c False ?s =
      (Inr \<lparr>lofi_success = True, lofi_attempt = Some 1\<rparr>,
       lofi_say False (LofiLoginSuccessful 1) (lofi_posted ?c s2))"
    by (simp add: lofi_executeLogin_def Let_def s2_def)
  have c: "filter is_post (trace (snd (lofi_executeLogin ?e ?c False ?s)))
       = [Post \<lparr>ld_username = Some ''user'', ld_password = Some ''secret''\<rparr>]"
    by (simp add: x s2_def)
  show ?thesis
    using a b c by blast
qed

section \<open>The setting autoRetry\<close>

text \<open>
  C1 at a failing input: \<open>autoRetry\<close> is off, the connection check is off and every request
  times out. \<open>executeLogin\<close> of \<open>autologin.js\<close> posts three times, with the two pauses:
  \<open>loginWithRetry\<close> never reads the setting.
\<close>

theorem executeLogin_ignores_autoRetry:
  "filter is_post_or_sleep
     (trace (snd (executeLogin (constant_env (NetFailure ''timeout of 15000ms exceeded'') (Status 200 ''OK'') True)
                    (configured (sample_config False False))))) =
   [Post \<lparr>ld_username = Some ''user'', ld_password = Some ''secret''\<rparr>, Sleep 5000,
    Post \<lparr>ld_username = Some ''user'', ld_password = Some ''secret''\<rparr>, Sleep 5000,
    Post \<lparr>ld_username = Some ''user'', ld_password = Some ''secret''\<rparr>]"
proof -
  let ?e = "constant_env (NetFailure ''timeout of 15000ms exceeded'') (Status 200 ''OK'') True"
  let ?c = "sample_config False False"
  let ?s = "configured ?c"
  let ?d = "\<lparr>ld_username = Some ''user'', ld_password = Some ''secret''\<rparr>"
  let ?err = "NetworkError ''timeout of 15000ms exceeded''"
  let ?s2 = "log StartingLoginProcess ?s"
  define s3 where
    "s3 = failed_attempt ?d 3 ?err (waited (failed_attempt ?d 2 ?err (waited (failed_attempt ?d 1 ?err ?s2))))"
  define res where
    "res = \<lparr>success = False, message = AllLoginAttemptsFailed ?err, out_attempt = 3,
            timestamp = clock ?s2 + 10000\<rparr>"
  have a: "attempt_error (post_reply ?e k) = Some ?err" for k
    by (simp add: constant_env_def attempt_error_def axios_settle_def try_login_def)
  have l: "loginWithRetry ?e ?d ?s2 = (Some res, s3)"
    unfolding s3_def res_def by (rule three_failures) (rule a)+
  have x: "executeLogin ?e ?s = (Inr None, reported ?c res s3)"
    by (rule executeLogin_connected [where entered = ?s2]) (simp_all add: l)
  show ?thesis
    by (simp add: x reported_def Let_def s3_def res_def sendNotification_def log_events_def)
qed

section \<open>A configuration without credentials\<close>

text \<open>
  C6 on \<open>autologin.js\<close>: when the parsed configuration lacks the username or the password
  (the property is missing or empty), \<open>loadConfig\<close> throws, and \<open>start\<close>, called on a stopped
  service, logs the failure, arms no timer and ends with \<open>isRunning = false\<close>.
\<close>

lemma loadConfig_rejects_missing_credentials:
  assumes "config_file s = Parsed c" and "falsy (cfg_username c) \<or> falsy (cfg_password c)"
  shows "loadConfig e s = (Inl CredentialsNotFound, s)"
  using assms by (simp add: loadConfig_def)

lemma start_rejects_missing_credentials:
  assumes "\<not> isRunning s" and "config_file s = Parsed c"
    and "falsy (cfg_username c) \<or> falsy (cfg_password c)"
  shows "start e s =
           (log (FailedToStartService CredentialsNotFound)
              (log StartingService (s\<lparr>isRunning := True\<rparr>)))\<lparr>isRunning := False\<rparr>"
    and "isRunning (start e s) = False"
    and "timers (start e s) = timers s"
    and "new_events s (start e s) =
           log_events (config s) StartingService
           @ log_events (config s) (FailedToStartService CredentialsNotFound)"
proof -
  let ?s1 = "log StartingService (s\<lparr>isRunning := True\<rparr>)"
  have "loadConfig e ?s1 = (Inl CredentialsNotFound, ?s1)"
    using assms(2,3) by (intro loadConfig_rejects_missing_credentials) simp_all
  then show a: "start e s =
           (log (FailedToStartService CredentialsNotFound) ?s1)\<lparr>isRunning := False\<rparr>"
    using assms(1) by (simp add: start_def Let_def start_failed_def)
  show "isRunning (start e s) = False" "timers (start e s) = timers s"
    "new_events s (start e s) =
           log_events (config s) StartingService
           @ log_events (config s) (FailedToStartService CredentialsNotFound)"
    by (simp_all add: a new_events_def)
qed

text \<open>
  \<open>startService\<close> of \<open>autolofi.js\<close> on a stopped service whose configuration file parses,
  when the first request is answered with 200.
\<close>

lemma startService_first_success:
  assumes "\<not> isRunning s" and "config_file s = Parsed c" and "cfg_settings c = Some st"
    and "is_200 (post_reply e (posts s))"
  shows "fst (lofi_loadConfig e s) = Inr c"
    and "isRunning (startService e s)"
    and "timers (startService e s) = timers s @ [(next_handle s, LoginTick)]"
    and "filter is_post (new_events s (startService e s)) =
           [Post \<lparr>ld_username = cfg_username c, ld_password = cfg_password c\<rparr>]"
proof -
  show l: "fst (lofi_loadConfig e s) = Inr c"
    using assms(2) by (simp add: lofi_loadConfig_def)
  have l': "lofi_loadConfig e s = (Inr c, s)"
    using assms(2) by (simp add: lofi_loadConfig_def)
  define s4 where
    "s4 = (snd (setInterval LoginTick ((console LofiStarting s)\<lparr>isRunning := True\<rparr>)))
            \<lparr>loginInterval := Some (next_handle s)\<rparr>"
  define s5 where
    "s5 = console (LofiLoginAttempt False) (lofi_logToFile (LofiLoginAttempt False) s4)"
  define s6 where
    "s6 = lofi_say False (LofiLoginSuccessful 1) (lofi_posted c s5)"
  have p5: "posts s5 = posts s"
    by (simp add: s5_def s4_def)
  have "lofi_executeLogin_from e c False 1 s5 =
      (Inr \<lparr>lofi_success = True, lofi_attempt = Some 1\<rparr>, s6)"
    unfolding s6_def
    by (rule lofi_loop_success [OF assms(3)]) (simp_all add: p5 assms(4) maxRetries_def)
  then have x: "lofi_executeLogin e c False s4 =
      (Inr \<lparr>lofi_success = True, lofi_attempt = Some 1\<rparr>, s6)"
    by (simp add: lofi_executeLogin_def Let_def s5_def)
  have r: "startService e s =
      lofi_logToFile LofiServiceStarted
        (console (LofiAutoLoginEvery (checkInterval div 60000))
           (console LofiStartedSuccessfully s6))"
    using assms(1)
    by (simp add: startService_def l' Let_def case_prod_beta s4_def [symmetric] x)
  show "isRunning (startService e s)"
    by (simp add: r s6_def s5_def s4_def)
  show "timers (startService e s) = timers s @ [(next_handle s, LoginTick)]"
    by (simp add: r s6_def s5_def s4_def)
  show "filter is_post (new_events s (startService e s)) =
           [Post \<lparr>ld_username = cfg_username c, ld_password = cfg_password c\<rparr>]"
    by (simp add: r s6_def s5_def s4_def new_events_def)
qed

text \<open>
  C6 at a failing input, on \<open>autolofi.js\<close>: the configuration file has a password and no
  username. \<open>loadConfig\<close> returns it as it is, and \<open>startService\<close> ends running, with the
  login timer armed, after posting the missing username to the portal.
\<close>

theorem startService_accepts_missing_username:
  "fst (lofi_loadConfig (flaky_env 0 True) (new_service NoFile (Parsed no_username_config) 0))
     = Inr no_username_config
   \<and> isRunning (startService (flaky_env 0 True) (new_service NoFile (Parsed no_username_config) 0))
   \<and> timers (startService (flaky_env 0 True) (new_service NoFile (Parsed no_username_config) 0))
     = [(0, LoginTick)]
   \<and> filter is_post (trace (startService (flaky_env 0 True)
        (new_service NoFile (Parsed no_username_config) 0)))
     = [Post \<lparr>ld_username = None, ld_password = Some ''secret''\<rparr>]"
proof -
  let ?e = "flaky_env 0 True"
  let ?s = "new_service NoFile (Parsed no_username_config) 0"
  have a: "\<not> isRunning ?s" "config_file ?s = Parsed no_username_config"
    by simp_all
  have b: "cfg_settings no_username_config = Some \<lparr>enableNotifications = True, autoRetry = True,
                            checkConnection = True, logToFile = True\<rparr>"
    by (simp add: no_username_config_def)
  have c: "is_200 (post_reply ?e (posts ?s))"
    by (simp add: flaky_env_def)
  have n: "next_handle ?s = 0"
    by (simp add: new_service_def)
  have u: "cfg_username no_username_config = None" "cfg_password no_username_config = Some ''secret''"
    by (simp_all add: no_username_config_def)
  show ?thesis
    using startService_first_success [OF a b c]
    by (simp add: new_events_def n u)
qed

section \<open>The scheduler\<close>

lemma scheduler_simps [simp]:
  "scheduler (emit ev s) = scheduler s"
  "scheduler (console l s) = scheduler s"
  "scheduler (delay ms s) = scheduler s"
  "scheduler (log l s) = scheduler s"
  "scheduler (snd (checkInternetConnection e s)) = scheduler s"
  "scheduler (sendNotification res s) = scheduler s"
  "scheduler (s\<lparr>clock := t\<rparr>) = scheduler s"
  "scheduler (s\<lparr>config_file := cf\<rparr>) = scheduler s"
  "scheduler (s\<lparr>config := c\<rparr>) = scheduler s"
  by (simp_all add: scheduler_def)

lemma scheduler_ok_cong:
  assumes "scheduler s' = scheduler s"
  shows "scheduler_ok s' = scheduler_ok s"
proof -
  have "isRunning s' = isRunning s" "loginInterval s' = loginInterval s"
    "connectionInterval s' = connectionInterval s" "timers s' = timers s"
    using assms by (simp_all add: scheduler_def)
  then show ?thesis
    by (simp add: scheduler_ok_def split: option.splits)
qed

lemma loginWithRetry_scheduler [simp]: "scheduler (snd (loginWithRetry e d s)) = scheduler s"
  by (simp add: scheduler_def loginWithRetry_frame)

lemma executeLogin_frame [simp]:
  "scheduler (snd (executeLogin e s)) = scheduler s"
  "config (snd (executeLogin e s)) = config s"
  "next_handle (snd (executeLogin e s)) = next_handle s"
  by (simp_all add: executeLogin_def Let_def case_prod_beta loginWithRetry_frame
      split: option.splits)

lemma executeLogin_fields [simp]:
  "isRunning (snd (executeLogin e s)) = isRunning s"
  "loginInterval (snd (executeLogin e s)) = loginInterval s"
  "connectionInterval (snd (executeLogin e s)) = connectionInterval s"
  "timers (snd (executeLogin e s)) = timers s"
  using executeLogin_frame(1) [of e s] by (simp_all add: scheduler_def)

lemma executeLogin_fst:
  assumes "config s = Some c"
  shows "fst (executeLogin e s) = Inr None"
proof -
  have n: "(fst (loginWithRetry e d s') = None) = False" for d s'
    using loginWithRetry_returns [of e d s'] by auto
  show ?thesis
    using assms by (simp add: executeLogin_def Let_def case_prod_beta n split: option.splits)
qed

lemma loadConfig_frame [simp]:
  "isRunning (snd (loadConfig e s)) = isRunning s"
  "config (snd (loadConfig e s)) = config s"
  "loginInterval (snd (loadConfig e s)) = loginInterval s"
  "connectionInterval (snd (loadConfig e s)) = connectionInterval s"
  "timers (snd (loadConfig e s)) = timers s"
  "next_handle (snd (loadConfig e s)) = next_handle s"
  by (simp_all add: loadConfig_def createConfigTemplate_def Let_def
      split: json_file.splits prod.splits sum.splits)

lemma log_eq: "log l s = s\<lparr>trace := trace s @ log_events (config s) l\<rparr>"
  by (simp add: log_def Let_def console_def emit_def logToFile_m_def log_events_def)

lemma stop_fields [simp]:
  "isRunning (stop s) = False"
  "config (stop s) = config s"
  "loginInterval (stop s) = loginInterval s"
  "connectionInterval (stop s) = connectionInterval s"
  "next_handle (stop s) = next_handle s"
  "timers (stop s) =
     filter (\<lambda>t. case connectionInterval s of Some h \<Rightarrow> fst t \<noteq> h | None \<Rightarrow> True)
       (filter (\<lambda>t. case loginInterval s of Some h \<Rightarrow> fst t \<noteq> h | None \<Rightarrow> True) (timers s))"
  "trace (stop s) = trace s @ log_events (config s) ServiceStopped"
  by (simp_all add: stop_def Let_def split: option.splits)

lemma scheduler_ok_stop: "scheduler_ok s \<Longrightarrow> scheduler_ok (stop s)"
  by (auto simp: scheduler_ok_def split: if_splits option.splits)

lemma start_running: "isRunning s \<Longrightarrow> start e s = log ServiceAlreadyRunning s"
  by (simp add: start_def)

lemma start_fields:
  assumes "\<not> isRunning s"
  shows "(isRunning (start e s) \<and> loginInterval (start e s) = Some (next_handle s)
          \<and> (timers (start e s) = timers s @ [(next_handle s, LoginTick)]
              \<or> connectionInterval (start e s) = Some (Suc (next_handle s))
                \<and> timers (start e s) =
                     timers s @ [(next_handle s, LoginTick), (Suc (next_handle s), ConnectionTick)]))
       \<or> (\<not> isRunning (start e s) \<and> timers (start e s) = timers s)"
  using assms
  by (simp add: start_def Let_def case_prod_beta start_failed_def split: sum.splits)

lemma scheduler_ok_simps [simp]:
  "scheduler_ok (log l s) = scheduler_ok s"
  "scheduler_ok (delay ms s) = scheduler_ok s"
  "scheduler_ok (snd (executeLogin e s)) = scheduler_ok s"
  "scheduler_ok (snd (checkInternetConnection e s)) = scheduler_ok s"
  "scheduler_ok (s\<lparr>clock := t\<rparr>) = scheduler_ok s"
  "scheduler_ok (s\<lparr>config_file := cf\<rparr>) = scheduler_ok s"
  by (rule scheduler_ok_cong, simp)+

lemma scheduler_ok_start:
  assumes "scheduler_ok s"
  shows "scheduler_ok (start e s)"
proof (cases "isRunning s")
  case True
  then show ?thesis
    using assms by (simp add: start_running)
next
  case False
  then have "timers s = []"
    using assms by (simp add: scheduler_ok_def)
  then show ?thesis
    using start_fields [OF False, of e] by (auto simp: scheduler_ok_def)
qed

lemma scheduler_ok_fire:
  assumes "scheduler_ok s"
  shows "scheduler_ok (fire e k s)"
proof (cases k)
  case LoginTick
  then show ?thesis
    using assms
    by (simp add: fire_def case_prod_beta scheduler_ok_stop split: sum.splits)
next
  case ConnectionTick
  then show ?thesis
    using assms
    by (simp add: fire_def Let_def case_prod_beta scheduler_ok_stop split: sum.splits)
qed

lemma reachable_scheduler_ok: "reachable e s \<Longrightarrow> scheduler_ok s"
proof (induction rule: reachable.induct)
  case (r_new sf cf t)
  show ?case by (simp add: scheduler_ok_def)
next
  case (r_start s)
  then show ?case by (simp add: scheduler_ok_start)
next
  case (r_stop s)
  then show ?case by (simp add: scheduler_ok_stop)
next
  case (r_restart s)
  have "scheduler_ok (delay 2000 (stop (log RestartingService s)))"
    using r_restart.IH by (simp add: scheduler_ok_stop)
  then show ?case
    unfolding restart_def by (rule scheduler_ok_start)
next
  case (r_login s u s')
  then have "s' = snd (executeLogin e s)" by simp
  then show ?case
    using r_login.IH by simp
next
  case (r_login_throws s err s')
  then have "s' = snd (executeLogin e s)" by simp
  then have "scheduler_ok s'"
    using r_login_throws.IH by simp
  then show ?case by (rule scheduler_ok_stop)
next
  case (r_fire s h k)
  then show ?case by (simp add: scheduler_ok_fire)
next
  case (r_time s d)
  then show ?case by simp
next
  case (r_edit s cf)
  then show ?case by simp
qed

lemma scheduler_ok_active: "scheduler_ok s \<Longrightarrow> active LoginTick s \<le> 1 \<and> active ConnectionTick s \<le> 1"
  by (auto simp: scheduler_ok_def active_def split: if_splits option.splits)

lemma stop_stop: "stop (stop s) = log ServiceStopped (stop s)"
proof -
  let ?t = "stop s"
  have a: "clearInterval h ?t = ?t" if "loginInterval s = Some h \<or> connectionInterval s = Some h" for h
  proof -
    have "filter (\<lambda>t. fst t \<noteq> h) (timers ?t) = timers ?t"
      using that by (auto intro!: filter_cong split: option.splits)
    then show ?thesis
      by (simp add: clearInterval_def)
  qed
  have b: "?t\<lparr>isRunning := False\<rparr> = ?t"
    by (simp add: stop_def Let_def log_eq)
  show ?thesis
    by (cases "loginInterval s"; cases "connectionInterval s")
       (simp_all add: stop_def [of ?t] Let_def a b)
qed


text \<open>\<open>start\<close> on a stopped service whose configuration file has both credentials.\<close>

lemma start_ok:
  assumes "\<not> isRunning s" and "config_file s = Parsed c"
    and "\<not> falsy (cfg_username c)" and "\<not> falsy (cfg_password c)"
  shows "isRunning (start e s)"
    and "loginInterval (start e s) = Some (next_handle s)"
    and "timers (start e s) =
           timers s @ (next_handle s, LoginTick) #
             (if setting checkConnection c then [(Suc (next_handle s), ConnectionTick)] else [])"
    and "connectionInterval (start e s) =
           (if setting checkConnection c then Some (Suc (next_handle s)) else connectionInterval s)"
    and "config (start e s) = Some c"
proof -
  let ?s1 = "log StartingService (s\<lparr>isRunning := True\<rparr>)"
  have l: "loadConfig e ?s1 = (Inr c, ?s1)"
    using assms(2,3,4) by (simp add: loadConfig_def)
  let ?s4 = "log (StatusLine (getLoginStatus (log ConfigLoaded (?s1\<lparr>config := Some c\<rparr>))))
               (log ConfigLoaded (?s1\<lparr>config := Some c\<rparr>))"
  have x: "fst (executeLogin e ?s4) = Inr None"
    by (rule executeLogin_fst [where c = c]) simp
  show "isRunning (start e s)" "loginInterval (start e s) = Some (next_handle s)"
    "timers (start e s) =
           timers s @ (next_handle s, LoginTick) #
             (if setting checkConnection c then [(Suc (next_handle s), ConnectionTick)] else [])"
    "connectionInterval (start e s) =
           (if setting checkConnection c then Some (Suc (next_handle s)) else connectionInterval s)"
    "config (start e s) = Some c"
    using assms(1) by (simp_all add: start_def Let_def case_prod_beta l x)
qed

text \<open>
  C7: in every state the service can reach (by \<open>start\<close>, \<open>stop\<close>, \<open>restart\<close>, a login on
  demand or a firing of an active timer, each run to its end before the next) at most one
  login timer and at most one connectivity timer are active; \<open>start\<close> on a running service
  changes nothing but the log, to which it adds the line "Service already running";
  and a second \<open>stop\<close> in a row changes nothing but the log, to which it adds the line
  "Service stopped" once more. Neither has a path that throws.
\<close>

theorem scheduler_invariants:
  "(reachable e s \<longrightarrow> active LoginTick s \<le> 1 \<and> active ConnectionTick s \<le> 1)
   \<and> (isRunning s \<longrightarrow>
        start e s = s\<lparr>trace := trace s @ log_events (config s) ServiceAlreadyRunning\<rparr>)
   \<and> stop (stop s) = (stop s)\<lparr>trace := trace (stop s) @ log_events (config s) ServiceStopped\<rparr>"
proof (intro conjI impI)
  assume "reachable e s"
  then have "scheduler_ok s"
    by (rule reachable_scheduler_ok)
  then show "active LoginTick s \<le> 1" "active ConnectionTick s \<le> 1"
    using scheduler_ok_active by blast+
next
  assume "isRunning s"
  then show "start e s = s\<lparr>trace := trace s @ log_events (config s) ServiceAlreadyRunning\<rparr>"
    by (simp add: start_running log_eq)
next
  show "stop (stop s) = (stop s)\<lparr>trace := trace (stop s) @ log_events (config s) ServiceStopped\<rparr>"
    by (simp add: stop_stop log_eq [of ServiceStopped "stop s"])
qed

theorem scheduler_invariants_witness:
  "timers (start (flaky_env 0 True) (new_service NoFile (Parsed (sample_config True True)) 0))
     = [(0, LoginTick), (1, ConnectionTick)]
   \<and> active LoginTick (start (flaky_env 0 True) (new_service NoFile (Parsed (sample_config True True)) 0)) \<le> 1
   \<and> active ConnectionTick (start (flaky_env 0 True) (new_service NoFile (Parsed (sample_config True True)) 0)) \<le> 1
   \<and> start (flaky_env 0 True) (start (flaky_env 0 True) (new_service NoFile (Parsed (sample_config True True)) 0))
     = (start (flaky_env 0 True) (new_service NoFile (Parsed (sample_config True True)) 0))
         \<lparr>trace := trace (start (flaky_env 0 True) (new_service NoFile (Parsed (sample_config True True)) 0))
            @ [Console ServiceAlreadyRunning, AppendLog ServiceAlreadyRunning]\<rparr>
   \<and> timers (stop (stop (start (flaky_env 0 True) (new_service NoFile (Parsed (sample_config True True)) 0)))) = []"
proof -
  let ?e = "flaky_env 0 True"
  let ?s0 = "new_service NoFile (Parsed (sample_config True True)) 0"
  define s1 where "s1 = start ?e ?s0"
  have r: "reachable ?e s1"
    unfolding s1_def by (rule r_start) (rule r_new)
  have f: "\<not> falsy (cfg_username (sample_config True True))"
    "\<not> falsy (cfg_password (sample_config True True))"
    by (simp_all add: falsy_def)
  have n: "next_handle ?s0 = 0"
    by (simp add: new_service_def)
  have run: "isRunning s1"
    unfolding s1_def by (rule start_ok(1) [OF _ _ f]) simp_all
  have t: "timers s1 = [(0, LoginTick), (1, ConnectionTick)]"
    unfolding s1_def by (subst start_ok(3) [OF _ _ f]) (simp_all add: n)
  have c: "config s1 = Some (sample_config True True)"
    unfolding s1_def by (rule start_ok(5) [OF _ _ f]) simp_all
  have h: "loginInterval s1 = Some 0"
    unfolding s1_def by (subst start_ok(2) [OF _ _ f]) (simp_all add: n)
  have h': "connectionInterval s1 = Some 1"
    unfolding s1_def by (subst start_ok(4) [OF _ _ f]) (simp_all add: n)
  have "timers s1 = [(0, LoginTick), (1, ConnectionTick)]
      \<and> active LoginTick s1 \<le> 1 \<and> active ConnectionTick s1 \<le> 1
      \<and> start ?e s1 = s1\<lparr>trace := trace s1 @ [Console ServiceAlreadyRunning, AppendLog ServiceAlreadyRunning]\<rparr>
      \<and> timers (stop (stop s1)) = []"
    using scheduler_invariants [of ?e s1] r run t
    by (simp add: c log_events_def h h')
  then show ?thesis
    unfolding s1_def .
qed

end
